theory Spec2Isabelle
  imports Complex_Main
begin

section \<open>JavaScript values\<close>

text \<open>
  The values the scripts handle: what \<^verbatim>\<open>JSON.parse\<close> yields, what a sheet cell
  holds, and \<^verbatim>\<open>Date\<close> objects (by their time value in milliseconds). Numbers are
  modelled as integers; the code only tests them for zero and does arithmetic on
  time values. A parsed object is its list of properties, keys distinct.
\<close>

datatype jsval =
    JUndefined
  | JNull
  | JBool bool
  | JNum int
  | JStr string
  | JDate int
  | JArr "jsval list"
  | JObj "(string \<times> jsval) list"

datatype error = TypeError | SyntaxError | Error string

text \<open>\<^verbatim>\<open>if (v)\<close>: the falsy values are undefined, null, false, 0 and the empty string.\<close>

fun truthy :: "jsval \<Rightarrow> bool" where
  "truthy JUndefined = False"
| "truthy JNull = False"
| "truthy (JBool b) = b"
| "truthy (JNum n) = (n \<noteq> 0)"
| "truthy (JStr s) = (s \<noteq> [])"
| "truthy (JDate t) = True"
| "truthy (JArr xs) = True"
| "truthy (JObj kvs) = True"

text \<open>
  \<^verbatim>\<open>v.name\<close> for the property names the scripts read (id, type, data, object,
  client_reference_id, status): reading a property of undefined or null throws a
  TypeError, an object yields the property or undefined, and no other value has a
  property of these names.
\<close>

fun get_prop :: "jsval \<Rightarrow> string \<Rightarrow> error + jsval" where
  "get_prop JUndefined name = Inl TypeError"
| "get_prop JNull name = Inl TypeError"
| "get_prop (JObj kvs) name = Inr (case map_of kvs name of None \<Rightarrow> JUndefined | Some v \<Rightarrow> v)"
| "get_prop v name = Inr JUndefined"

section \<open>The spreadsheet and the script cache\<close>

text \<open>
  A sheet is the list of its rows up to the last row with content, a row the list of
  its cells. Cells hold the values written and give them back unchanged (the
  conversions Sheets applies to cell input are not modelled); a cell beyond a row's
  content reads as the empty string.
\<close>

type_synonym row = "jsval list"
type_synonym sheet = "row list"

definition getLastRow :: "sheet \<Rightarrow> nat" where
  "getLastRow sh = length sh"

definition appendRow :: "row \<Rightarrow> sheet \<Rightarrow> sheet" where
  "appendRow r sh = sh @ [r]"

definition cell_at :: "row \<Rightarrow> nat \<Rightarrow> jsval" where
  "cell_at r k = (if k < length r then r ! k else JStr [])"

text \<open>
  \<^verbatim>\<open>getRange(first, col, numRows, 1).getValues().flat()\<close>: the cells of column
  \<open>col\<close> (counted from 1) in \<open>numRows\<close> rows starting at row \<open>first\<close> (counted from 1).
\<close>

definition column_values :: "sheet \<Rightarrow> nat \<Rightarrow> nat \<Rightarrow> nat \<Rightarrow> jsval list" where
  "column_values sh first col numRows =
     map (\<lambda>r. cell_at r (col - 1)) (take numRows (drop (first - 1) sh))"

text \<open>
  \<^verbatim>\<open>getDataRange().getValues()\<close>: the rectangle of all rows, each padded to the
  width of the widest; an empty sheet gives a single empty cell.
\<close>

definition getValues :: "sheet \<Rightarrow> row list" where
  "getValues sh =
     (if sh = [] then [[JStr []]]
      else map (\<lambda>r. r @ replicate (Max (set (map length sh)) - length r) (JStr [])) sh)"

text \<open>\<^verbatim>\<open>row[k]\<close> on a row of \<^verbatim>\<open>getValues\<close>: undefined beyond its width.\<close>

definition row_at :: "row \<Rightarrow> nat \<Rightarrow> jsval" where
  "row_at r k = (if k < length r then r ! k else JUndefined)"

text \<open>
  The promotion snapshot \<^verbatim>\<open>{hasPromo: true, type, promoCodeId, message, buttonText,
  salePriceText, originalPrice, daysLeft}\<close>, and \<^verbatim>\<open>{hasPromo: false}\<close> as \<open>NoPromo\<close>.
\<close>

record promoInfo =
  type :: jsval
  promoCodeId :: jsval
  message :: jsval
  buttonText :: jsval
  salePriceText :: jsval
  originalPrice :: jsval
  daysLeft :: int

datatype promo = NoPromo | HasPromo promoInfo

text \<open>
  The script cache has the two keys the script uses. An entry is the value whose JSON
  text was stored (only this script writes the cache, always through
  \<^verbatim>\<open>JSON.stringify\<close>) and the time in milliseconds at which it expires.
\<close>

record cache =
  paid_users_list :: "(jsval list \<times> int) option"
  active_promotion_data :: "(promo \<times> int) option"

definition cache_get :: "int \<Rightarrow> ('a \<times> int) option \<Rightarrow> 'a option" where
  "cache_get now entry =
     (case entry of
        None \<Rightarrow> None
      | Some (v, expires) \<Rightarrow> if now < expires then Some v else None)"

definition cache_put :: "int \<Rightarrow> 'a \<Rightarrow> int \<Rightarrow> ('a \<times> int) option" where
  "cache_put now v seconds = Some (v, now + seconds * 1000)"

text \<open>
  A row of the 'Error Logs' sheet: the date, the function name, the message as the
  source writes it, and the values interpolated into it.
\<close>

type_synonym log_row = "int \<times> string \<times> string \<times> jsval list"

text \<open>
  The script's globals. The 'Payments' and 'Error Logs' tabs are checked when the
  script loads; the 'Promotions' tab is not, so it may be null.
\<close>

record server =
  PAYMENTS_SHEET :: sheet
  LOGS_SHEET :: "log_row list"
  PROMOTIONS_SHEET :: "sheet option"
  SCRIPT_CACHE :: cache

definition logError :: "int \<Rightarrow> string \<Rightarrow> string \<Rightarrow> jsval list \<Rightarrow> server \<Rightarrow> server" where
  "logError now functionName msg vals st =
     st\<lparr>LOGS_SHEET := LOGS_SHEET st @ [(now, functionName, msg, vals)]\<rparr>"

section \<open>The idempotency lookup\<close>

definition backslash :: char where
  "backslash = CHR 0x5C"

definition special :: "char list" where
  "special = ''.*+?^${}()|[]'' @ [backslash]"

text \<open>\<^verbatim>\<open>str.replace(/[.*+?^${}()|[\]\\]/g, '\\$&')\<close>; a value that is not a string has no
  \<^verbatim>\<open>replace\<close> method.\<close>

definition escape_chars :: "string \<Rightarrow> string" where
  "escape_chars s = concat (map (\<lambda>c. if c \<in> set special then [backslash, c] else [c]) s)"

fun escapeRegExp :: "jsval \<Rightarrow> error + string" where
  "escapeRegExp (JStr s) = Inr (escape_chars s)"
| "escapeRegExp v = Inl TypeError"

definition regex_source :: "string \<Rightarrow> string" where
  "regex_source escaped = CHR ''^'' # escaped @ ''$''"

text \<open>
  The text finder, for the patterns the script builds: between the anchors, a
  backslash followed by a special character stands for that character and any other
  character for itself. \<open>literal_of\<close> reads such a pattern body back; a body with an
  unescaped special character is outside this fragment. A cell matches when it holds
  text equal to the pattern's literal, compared exactly. (\<^verbatim>\<open>regex.source\<close> is taken
  as the pattern text itself; the escaping it adds to a slash does not change what
  the pattern matches.)
\<close>

fun literal_of :: "string \<Rightarrow> string option" where
  "literal_of [] = Some []"
| "literal_of [c] = (if c \<in> set special then None else Some [c])"
| "literal_of (c # d # cs) =
     (if c = backslash then
        (if d \<in> set special then map_option ((#) d) (literal_of cs) else None)
      else if c \<in> set special then None
      else map_option ((#) c) (literal_of (d # cs)))"

definition anchored_literal :: "string \<Rightarrow> string option" where
  "anchored_literal p =
     (case p of
        [] \<Rightarrow> None
      | c # cs \<Rightarrow>
          if c = CHR ''^'' \<and> cs \<noteq> [] \<and> last cs = CHR ''$'' then literal_of (butlast cs)
          else None)"

definition cell_matches :: "string \<Rightarrow> jsval \<Rightarrow> bool" where
  "cell_matches p v =
     (case anchored_literal p of
        None \<Rightarrow> False
      | Some lit \<Rightarrow> (case v of JStr t \<Rightarrow> t = lit | _ \<Rightarrow> False))"

definition findNext :: "string \<Rightarrow> jsval list \<Rightarrow> jsval option" where
  "findNext p cells = find (cell_matches p) cells"

definition isEventProcessed :: "int \<Rightarrow> jsval \<Rightarrow> sheet \<Rightarrow> server \<Rightarrow> bool \<times> server" where
  "isEventProcessed now eventId sh st =
     (let lastRow = getLastRow sh in
      if lastRow < 1 then (False, st)
      else
        (case escapeRegExp eventId of
           Inl err \<Rightarrow>
             (False, logError now ''isEventProcessed_Error''
                       ''An error occurred during search: ${error.message}'' [] st)
         | Inr escapedEventId \<Rightarrow>
             (findNext (regex_source escapedEventId) (column_values sh 1 3 lastRow) \<noteq> None, st)))"

section \<open>The webhook ingestor\<close>

datatype html_output = HtmlOutput string

definition createStripeSuccessResponse :: html_output where
  "createStripeSuccessResponse = HtmlOutput ''<p>OK</p>''"

definition remove_paid_users_list :: "server \<Rightarrow> server" where
  "remove_paid_users_list st = st\<lparr>SCRIPT_CACHE := (SCRIPT_CACHE st)\<lparr>paid_users_list := None\<rparr>\<rparr>"

text \<open>
  Step 3 of \<^verbatim>\<open>handleStripeWebhook\<close>, the body of its second \<^verbatim>\<open>try\<close>: every throw
  in it comes before the first effect, so a failure leaves the state as it was.
\<close>

definition applyEvent :: "int \<Rightarrow> jsval \<Rightarrow> jsval \<Rightarrow> server \<Rightarrow> error + server" where
  "applyEvent now event eventId st =
     (case get_prop event ''type'' of
        Inl err \<Rightarrow> Inl err
      | Inr ty \<Rightarrow>
          if ty = JStr ''checkout.session.completed'' then
            (case get_prop event ''data'' of
               Inl err \<Rightarrow> Inl err
             | Inr d \<Rightarrow>
                 (case get_prop d ''object'' of
                    Inl err \<Rightarrow> Inl err
                  | Inr session \<Rightarrow>
                      (case get_prop session ''client_reference_id'' of
                         Inl err \<Rightarrow> Inl err
                       | Inr userEmail \<Rightarrow>
                           if truthy userEmail then
                             Inr (remove_paid_users_list
                                   (logError now ''handleStripeWebhook''
                                      ''Successfully queued record for ${userEmail} with Event ID: ${eventId}.''
                                      [userEmail, eventId]
                                      (st\<lparr>PAYMENTS_SHEET :=
                                            appendRow [userEmail, JDate now, eventId] (PAYMENTS_SHEET st)\<rparr>)))
                           else
                             Inr (logError now ''handleStripeWebhook''
                                    ''ERROR: Missing client_reference_id in completed session.'' [] st))))
          else Inr st)"

text \<open>
  \<^verbatim>\<open>handleStripeWebhook(e)\<close>; \<open>contents\<close> is \<^verbatim>\<open>JSON.parse(e.postData.contents)\<close>,
  \<open>None\<close> when that throws. Reading \<^verbatim>\<open>event.id\<close> stands outside both \<^verbatim>\<open>try\<close>
  blocks, so its TypeError (the body is the JSON text null) leaves the function.
\<close>

definition handleStripeWebhook ::
  "int \<Rightarrow> jsval option \<Rightarrow> server \<Rightarrow> (error + html_output) \<times> server" where
  "handleStripeWebhook now contents st =
     (case contents of
        None \<Rightarrow>
          (Inr createStripeSuccessResponse,
           logError now ''handleStripeWebhook''
             ''FATAL: Could not parse incoming JSON. Error: ${error.message}'' [] st)
      | Some event \<Rightarrow>
          (case get_prop event ''id'' of
             Inl err \<Rightarrow> (Inl err, st)
           | Inr eventId \<Rightarrow>
               (case isEventProcessed now eventId (PAYMENTS_SHEET st) st of
                  (processed, st1) \<Rightarrow>
                    if processed then
                      (Inr createStripeSuccessResponse,
                       logError now ''handleStripeWebhook''
                         ''Webhook already processed: ${eventId}. Acknowledging and skipping.''
                         [eventId] st1)
                    else
                      (case applyEvent now event eventId st1 of
                         Inl err \<Rightarrow>
                           (Inr createStripeSuccessResponse,
                            logError now ''handleStripeWebhook''
                              ''FATAL ERROR during processing: ${error.message}'' [] st1)
                       | Inr st2 \<Rightarrow> (Inr createStripeSuccessResponse, st2)))))"

text \<open>
  The same notification delivered once for each time of the list, in order: the
  responses and the final state.
\<close>

fun replay :: "jsval option \<Rightarrow> int list \<Rightarrow> server \<Rightarrow> (error + html_output) list \<times> server" where
  "replay contents [] st = ([], st)"
| "replay contents (now # later) st =
     (case handleStripeWebhook now contents st of
        (r, st1) \<Rightarrow> (case replay contents later st1 of (rs, st2) \<Rightarrow> (r # rs, st2)))"

text \<open>The rows of a sheet whose third cell (StripeEventID) is the given value.\<close>

definition records_with_eventId :: "jsval \<Rightarrow> sheet \<Rightarrow> row list" where
  "records_with_eventId eventId sh = filter (\<lambda>r. cell_at r 2 = eventId) sh"

section \<open>The entitlement resolver\<close>

definition getPaidUsersFromCacheOrSheet :: "int \<Rightarrow> server \<Rightarrow> jsval list \<times> server" where
  "getPaidUsersFromCacheOrSheet now st =
     (case cache_get now (paid_users_list (SCRIPT_CACHE st)) of
        Some cachedData \<Rightarrow>
          (cachedData, logError now ''getPaidUsers'' ''Returning paid users list from CACHE.'' [] st)
      | None \<Rightarrow>
          (let st1 = logError now ''getPaidUsers'' ''Cache miss. Reading paid users list from SHEET.'' [] st;
               lastRow = getLastRow (PAYMENTS_SHEET st1)
           in if lastRow < 2 then ([], st1)
              else
                (let emailList = column_values (PAYMENTS_SHEET st1) 2 1 (lastRow - 1)
                 in (emailList,
                     st1\<lparr>SCRIPT_CACHE :=
                           (SCRIPT_CACHE st1)\<lparr>paid_users_list := cache_put now emailList 3600\<rparr>\<rparr>))))"

section \<open>The promotion resolver\<close>

text \<open>
  Time values are milliseconds since the epoch, in UTC, as JavaScript dates hold them.
  What the host decides is a parameter of the model: how a text is read as a date
  (\<open>None\<close>: an invalid date), and the script's time zone, given as ECMAScript's
  \<^verbatim>\<open>LocalTZA(t, isUTC)\<close>: the offset of local time from UTC in milliseconds, in
  force at the UTC time \<open>t\<close> (\<open>isUTC\<close> true) or at the local wall-clock time \<open>t\<close>
  (\<open>isUTC\<close> false). The range limit of JavaScript dates is not modelled.
\<close>

record runtime =
  Date_parse :: "string \<Rightarrow> int option"
  LocalTZA :: "int \<Rightarrow> bool \<Rightarrow> int"

definition day_ms :: int where
  "day_ms = 1000 * 60 * 60 * 24"

text \<open>ECMAScript's \<^verbatim>\<open>LocalTime(t)\<close> and \<^verbatim>\<open>UTC(t)\<close>.\<close>

definition LocalTime :: "runtime \<Rightarrow> int \<Rightarrow> int" where
  "LocalTime env t = t + LocalTZA env t True"

definition UTC :: "runtime \<Rightarrow> int \<Rightarrow> int" where
  "UTC env w = w - LocalTZA env w False"

text \<open>
  \<^verbatim>\<open>date.setHours(hour, min, sec, ms)\<close> on the date with time value \<open>t\<close>: the
  wall-clock time of the same local day, taken back to UTC.
\<close>

definition setHours :: "runtime \<Rightarrow> int \<Rightarrow> int \<Rightarrow> int \<Rightarrow> int \<Rightarrow> int \<Rightarrow> int" where
  "setHours env hour minute sec ms t =
     UTC env (LocalTime env t div day_ms * day_ms +
              (hour * 3600000 + minute * 60000 + sec * 1000 + ms))"

text \<open>
  \<^verbatim>\<open>new Date(v)\<close> for a cell value, \<open>None\<close> when the date is invalid (its time value
  is NaN). A cell never holds an array or an object; the model gives those an invalid
  date.
\<close>

fun new_Date :: "runtime \<Rightarrow> jsval \<Rightarrow> int option" where
  "new_Date env (JDate t) = Some t"
| "new_Date env (JStr s) = Date_parse env s"
| "new_Date env (JNum n) = Some n"
| "new_Date env (JBool b) = Some (if b then 1 else 0)"
| "new_Date env JNull = Some 0"
| "new_Date env JUndefined = None"
| "new_Date env (JArr xs) = None"
| "new_Date env (JObj kvs) = None"

text \<open>\<^verbatim>\<open>Math.ceil(a / b)\<close> on integers, for positive \<open>b\<close>.\<close>

definition Math_ceil_div :: "int \<Rightarrow> int \<Rightarrow> int" where
  "Math_ceil_div a b = - ((- a) div b)"

text \<open>
  The body of the loop of \<^verbatim>\<open>getActivePromotion\<close> for one row: \<open>None\<close> when the row
  is passed over (\<^verbatim>\<open>continue\<close>, or the window has ended), the snapshot when the
  window is active.
\<close>

definition evalRow :: "runtime \<Rightarrow> int \<Rightarrow> row \<Rightarrow> promoInfo option" where
  "evalRow env today r =
     (let promoEndDateStr = row_at r 0 in
      if truthy promoEndDateStr then
        (case new_Date env promoEndDateStr of
           None \<Rightarrow> None
         | Some d \<Rightarrow>
             (let promoEndDate = setHours env 23 59 59 999 d in
              if promoEndDate \<ge> today then
                (let timeDiff = promoEndDate - today;
                     daysLeft = Math_ceil_div timeDiff day_ms
                 in Some \<lparr>type = row_at r 1, promoCodeId = row_at r 2, message = row_at r 3,
                           buttonText = row_at r 4, salePriceText = row_at r 5,
                           originalPrice = row_at r 6, daysLeft = daysLeft\<rparr>)
              else None))
      else None)"

fun scanRows :: "runtime \<Rightarrow> int \<Rightarrow> row list \<Rightarrow> promoInfo option" where
  "scanRows env today [] = None"
| "scanRows env today (r # rest) =
     (case evalRow env today r of
        Some promoInfo \<Rightarrow> Some promoInfo
      | None \<Rightarrow> scanRows env today rest)"

text \<open>
  The \<^verbatim>\<open>try\<close> block of \<^verbatim>\<open>getActivePromotion\<close>: the response or the error thrown,
  with the state reached. The promotions tab may be null, and then
  \<^verbatim>\<open>PROMOTIONS_SHEET.getDataRange()\<close> throws a TypeError. The loop starts at the
  second row of the data.
\<close>

definition getActivePromotion_try ::
  "runtime \<Rightarrow> int \<Rightarrow> server \<Rightarrow> (error + promo) \<times> server" where
  "getActivePromotion_try env now st =
     (case cache_get now (active_promotion_data (SCRIPT_CACHE st)) of
        Some cachedData \<Rightarrow>
          (Inr cachedData,
           logError now ''getActivePromotion'' ''Returning promotion data from CACHE.'' [] st)
      | None \<Rightarrow>
          (let st1 = logError now ''getActivePromotion''
                       ''Cache miss. Reading promotion data from SHEET.'' [] st
           in case PROMOTIONS_SHEET st1 of
                None \<Rightarrow> (Inl TypeError, st1)
              | Some sh \<Rightarrow>
                  (let data = getValues sh;
                       today = setHours env 0 0 0 0 now;
                       result = (case scanRows env today (drop 1 data) of
                                   Some promoInfo \<Rightarrow> HasPromo promoInfo
                                 | None \<Rightarrow> NoPromo)
                   in (Inr result,
                       st1\<lparr>SCRIPT_CACHE :=
                             (SCRIPT_CACHE st1)\<lparr>active_promotion_data := cache_put now result 600\<rparr>\<rparr>))))"

definition getActivePromotion ::
  "runtime \<Rightarrow> int \<Rightarrow> server \<Rightarrow> promo \<times> server" where
  "getActivePromotion env now st =
     (case getActivePromotion_try env now st of
        (Inr response, st1) \<Rightarrow> (response, st1)
      | (Inl err, st1) \<Rightarrow>
          (NoPromo, logError now ''getActivePromotion'' ''Error: ${error.message}'' [] st1))"

text \<open>The response \<^verbatim>\<open>{status, promoData}\<close> of \<^verbatim>\<open>handleVerify\<close>; \<open>None\<close> is null.\<close>

record verify_response =
  status :: string
  promoData :: "promoInfo option"

definition handleVerify ::
  "runtime \<Rightarrow> int \<Rightarrow> string \<Rightarrow> server \<Rightarrow> verify_response \<times> server" where
  "handleVerify env now userEmail st =
     (case getPaidUsersFromCacheOrSheet now st of
        (paidUsers, st1) \<Rightarrow>
          if JStr userEmail \<in> set paidUsers then
            (\<lparr>status = ''paid'', promoData = None\<rparr>, st1)
          else
            (case getActivePromotion env now st1 of
               (HasPromo promoInfo, st2) \<Rightarrow>
                 if type promoInfo = JStr ''FREE'' then
                   (\<lparr>status = ''free_promo'', promoData = Some promoInfo\<rparr>,
                    logError now ''handleVerify''
                      ''Granting temporary free access to ${userEmail}.'' [JStr userEmail] st2)
                 else
                   (\<lparr>status = ''not_premium'', promoData = Some promoInfo\<rparr>,
                    logError now ''handleVerify''
                      ''User ${userEmail} is not premium, but a discount is available.''
                      [JStr userEmail] st2)
             | (NoPromo, st2) \<Rightarrow> (\<lparr>status = ''not_premium'', promoData = None\<rparr>, st2)))"

section \<open>The specification of promotion selection\<close>

text \<open>
  The selection as the specification words it, to be compared with \<open>scanRows\<close>. A
  window's end date is missing when its cell is empty (falsy) and unparseable when
  no valid date comes of it; a window is active when the local calendar day of its
  end date is today or later; the first active window in stored order is selected.
\<close>

definition local_day :: "runtime \<Rightarrow> int \<Rightarrow> int" where
  "local_day env t = LocalTime env t div day_ms"

definition end_date :: "runtime \<Rightarrow> row \<Rightarrow> int option" where
  "end_date env r = (if truthy (row_at r 0) then new_Date env (row_at r 0) else None)"

definition window_active :: "runtime \<Rightarrow> int \<Rightarrow> row \<Rightarrow> bool" where
  "window_active env now r =
     (case end_date env r of None \<Rightarrow> False | Some d \<Rightarrow> local_day env now \<le> local_day env d)"

definition selected_window :: "runtime \<Rightarrow> int \<Rightarrow> row list \<Rightarrow> row option" where
  "selected_window env now rows = find (window_active env now) rows"

text \<open>
  The first and the last millisecond of a local calendar day, as UTC time values, and
  the condition on a time zone that its days follow one another in time: a day starts
  before another ends exactly when it is not the later of the two. It holds of every
  zone with a fixed offset and of every zone whose offset only ever falls (clocks
  only go back), as shown below.
\<close>

definition day_start :: "runtime \<Rightarrow> int \<Rightarrow> int" where
  "day_start env n = UTC env (n * day_ms)"

definition day_end :: "runtime \<Rightarrow> int \<Rightarrow> int" where
  "day_end env n = UTC env (n * day_ms + (23 * 3600000 + 59 * 60000 + 59 * 1000 + 999))"

definition days_in_order :: "runtime \<Rightarrow> bool" where
  "days_in_order env = (\<forall>a b. (day_start env a \<le> day_end env b) = (a \<le> b))"

section \<open>The ledger's paid-user set\<close>

text \<open>
  The e-mail cells of the Payments rows below the header, and the invariant tying the
  cached list to them: a cache entry, when there is one, holds exactly that list.
\<close>

definition ledger_emails :: "sheet \<Rightarrow> jsval list" where
  "ledger_emails sh = column_values sh 2 1 (getLastRow sh - 1)"

definition paid_cache_coherent :: "server \<Rightarrow> bool" where
  "paid_cache_coherent st =
     (case paid_users_list (SCRIPT_CACHE st) of
        None \<Rightarrow> True
      | Some (cachedData, expires) \<Rightarrow> cachedData = ledger_emails (PAYMENTS_SHEET st))"

section \<open>The client-side status cache\<close>

definition PREMIUM_CACHE_DURATION :: int where
  "PREMIUM_CACHE_DURATION = 24 * 60 * 60 * 1000"

text \<open>The stored \<^verbatim>\<open>premiumCache\<close> object \<^verbatim>\<open>{status, timestamp, email}\<close>.\<close>

record premiumCache_entry =
  cachedStatus :: string
  timestamp :: int
  email :: string

text \<open>
  The extension's \<^verbatim>\<open>chrome.storage.local\<close> (\<open>None\<close>: the key is not set), the
  number of requests sent to the verification endpoint so far, and the delays waited
  between retries, in milliseconds.
\<close>

record client =
  paymentState :: "string option"
  premiumCache :: "premiumCache_entry option"
  fetches :: nat
  delays :: "nat list"

text \<open>
  What a request to the endpoint meets: the network fails, or a response arrives with
  its HTTP status and its body as \<^verbatim>\<open>response.json()\<close> reads it (\<open>None\<close> when the
  body is not JSON).
\<close>

datatype fetch_result = NetworkError | Response nat "jsval option"

text \<open>\<^verbatim>\<open>fetchStatus\<close>; the endpoint gives the outcome of each request by its number.\<close>

definition fetchStatus :: "(nat \<Rightarrow> fetch_result) \<Rightarrow> client \<Rightarrow> (error + jsval) \<times> client" where
  "fetchStatus endpoint st =
     ((case endpoint (fetches st) of
         NetworkError \<Rightarrow> Inl (Error ''Failed to fetch'')
       | Response code body \<Rightarrow>
           if \<not> (200 \<le> code \<and> code \<le> 299) then
             Inl (Error ''Server responded with status: ${response.status}'')
           else (case body of None \<Rightarrow> Inl SyntaxError | Some data \<Rightarrow> Inr data)),
      st\<lparr>fetches := fetches st + 1\<rparr>)"

text \<open>
  The loop of \<^verbatim>\<open>retryWithBackoff\<close>, from the current value of \<open>attempt\<close>. When the
  loop is not entered the function returns undefined.
\<close>

function retryLoop ::
  "(client \<Rightarrow> (error + jsval) \<times> client) \<Rightarrow> nat \<Rightarrow> nat \<Rightarrow> client \<Rightarrow> (error + jsval) \<times> client" where
  "retryLoop fn maxRetries attempt st =
     (if attempt < maxRetries then
        (case fn st of
           (Inr v, st1) \<Rightarrow> (Inr v, st1)
         | (Inl err, st1) \<Rightarrow>
             if attempt + 1 \<ge> maxRetries then (Inl err, st1)
             else retryLoop fn maxRetries (attempt + 1)
                    (st1\<lparr>delays := delays st1 @ [2 ^ (attempt + 1) * 1000]\<rparr>))
      else (Inr JUndefined, st))"
  by pat_completeness auto
termination
  by (relation "measure (\<lambda>(fn, maxRetries, attempt, st). maxRetries - attempt)") auto

definition retryWithBackoff ::
  "(client \<Rightarrow> (error + jsval) \<times> client) \<Rightarrow> nat \<Rightarrow> client \<Rightarrow> (error + jsval) \<times> client" where
  "retryWithBackoff fn maxRetries st = retryLoop fn maxRetries 0 st"

definition premiumCache_object :: "premiumCache_entry \<Rightarrow> jsval" where
  "premiumCache_object pc =
     JObj [(''status'', JStr (cachedStatus pc)), (''timestamp'', JNum (timestamp pc)),
           (''email'', JStr (email pc))]"

definition status_object :: "string \<Rightarrow> jsval" where
  "status_object s = JObj [(''status'', JStr s), (''promoData'', JNull)]"

text \<open>
  \<^verbatim>\<open>getPremiumStatus()\<close>. \<open>currentUser\<close> is what \<^verbatim>\<open>getSilentAuthToken\<close> settles to:
  the error it rejects with, or the token and the e-mail; a rejection leaves the
  function. Everything after the cache check runs inside \<^verbatim>\<open>try\<close>, and the
  \<^verbatim>\<open>catch\<close> answers with the cache entry read at the start, or the default.
\<close>

definition getPremiumStatus ::
  "error + (string \<times> string) \<Rightarrow> int \<Rightarrow> (nat \<Rightarrow> fetch_result) \<Rightarrow> client \<Rightarrow> (error + jsval) \<times> client" where
  "getPremiumStatus currentUser now endpoint st =
     (case currentUser of
        Inl err \<Rightarrow> (Inl err, st)
      | Inr (token, currentEmail) \<Rightarrow>
          (let isPaymentPending = (paymentState st = Some ''pending'');
               fallback = (case premiumCache st of
                             Some pc \<Rightarrow> premiumCache_object pc
                           | None \<Rightarrow> status_object ''not_premium'')
           in if \<not> isPaymentPending \<and>
                 (case premiumCache st of
                    None \<Rightarrow> False
                  | Some pc \<Rightarrow>
                      email pc = currentEmail \<and> cachedStatus pc = ''paid'' \<and>
                      now - timestamp pc < PREMIUM_CACHE_DURATION)
              then (Inr (status_object ''paid''), st)
              else
                (case retryWithBackoff (fetchStatus endpoint) 3 st of
                   (Inl err, st1) \<Rightarrow> (Inr fallback, st1)
                 | (Inr data, st1) \<Rightarrow>
                     (case get_prop data ''status'' of
                        Inl err \<Rightarrow> (Inr fallback, st1)
                      | Inr s \<Rightarrow>
                          (let st2 = (if s = JStr ''paid'' then
                                        st1\<lparr>premiumCache :=
                                              Some \<lparr>cachedStatus = ''paid'', timestamp = now,
                                                    email = currentEmail\<rparr>\<rparr>
                                      else st1);
                               st3 = (if isPaymentPending then
                                        st2\<lparr>paymentState := Some ''completed''\<rparr>
                                      else st2)
                           in (Inr data, st3))))))"

text \<open>
  The rule of the specification for honouring the stored entry: its e-mail is that of
  the signed-in user, its status is paid, it is less than 24 hours old, and no
  payment is pending. A request fails when the network fails, the HTTP status is not
  a success, or the body is not JSON.
\<close>

definition cache_honoured :: "string \<Rightarrow> int \<Rightarrow> client \<Rightarrow> bool" where
  "cache_honoured currentEmail now st =
     (paymentState st \<noteq> Some ''pending'' \<and>
      (case premiumCache st of
         None \<Rightarrow> False
       | Some pc \<Rightarrow>
           email pc = currentEmail \<and> cachedStatus pc = ''paid'' \<and> now - timestamp pc < 86400000))"

definition fetch_fails :: "fetch_result \<Rightarrow> bool" where
  "fetch_fails r =
     (case r of
        NetworkError \<Rightarrow> True
      | Response code body \<Rightarrow> code < 200 \<or> 299 < code \<or> body = None)"

section \<open>Example data\<close>

definition payments_header :: row where
  "payments_header = [JStr ''Email'', JStr ''PurchaseDate'', JStr ''StripeEventID'']"

definition promotions_header :: row where
  "promotions_header =
     [JStr ''ActiveUntilDate'', JStr ''PromoType'', JStr ''StripePromoCodeID'', JStr ''PromoMessage'',
      JStr ''ButtonText'', JStr ''SalePriceText'', JStr ''OriginalPriceText'']"

text \<open>A Stripe event \<^verbatim>\<open>{id, type: 'checkout.session.completed', data: {object:
  {client_reference_id}}}\<close>.\<close>

definition checkout_completed :: "string \<Rightarrow> jsval \<Rightarrow> jsval" where
  "checkout_completed i ref =
     JObj [(''id'', JStr i), (''type'', JStr ''checkout.session.completed''),
           (''data'', JObj [(''object'', JObj [(''client_reference_id'', ref)])])]"

text \<open>A freshly set up backend: the two header rows, empty log and cache.\<close>

definition fresh_server :: server where
  "fresh_server =
     \<lparr>PAYMENTS_SHEET = [payments_header], LOGS_SHEET = [],
      PROMOTIONS_SHEET = Some [promotions_header],
      SCRIPT_CACHE = \<lparr>paid_users_list = None, active_promotion_data = None\<rparr>\<rparr>"

text \<open>A backend with one payment on record and its paid-user list cached until time 3600000.\<close>

definition warm_server :: server where
  "warm_server =
     \<lparr>PAYMENTS_SHEET = [payments_header, [JStr ''a@x.com'', JDate 0, JStr ''evt_0'']],
      LOGS_SHEET = [],
      PROMOTIONS_SHEET = Some [promotions_header],
      SCRIPT_CACHE = \<lparr>paid_users_list = Some ([JStr ''a@x.com''], 3600000),
                       active_promotion_data = None\<rparr>\<rparr>"

text \<open>
  The backend at 10:00 on day 20000 of the local calendar, with one promotion row
  ending five days later: a discount with promotion code P1.
\<close>

definition ten_oclock :: int where
  "ten_oclock = 20000 * 86400000 + 36000000"

definition discount_row :: row where
  "discount_row =
     [JDate (20005 * 86400000), JStr ''DISCOUNT'', JStr ''P1'', JStr ''Sale ends soon'',
      JStr ''Buy now'', JStr ''5 USD'', JStr ''10 USD'']"

definition promo_server :: server where
  "promo_server =
     \<lparr>PAYMENTS_SHEET = [payments_header], LOGS_SHEET = [],
      PROMOTIONS_SHEET = Some [promotions_header, discount_row],
      SCRIPT_CACHE = \<lparr>paid_users_list = None, active_promotion_data = None\<rparr>\<rparr>"

text \<open>A host that reads no text as a date and whose time zone is UTC.\<close>

definition utc_runtime :: runtime where
  "utc_runtime = \<lparr>Date_parse = (\<lambda>s. None), LocalTZA = (\<lambda>t isUTC. 0)\<rparr>"

text \<open>
  A host in New York around the end of daylight saving time on 2026-11-01, 06:00 UTC:
  the offset is -4 hours before and -5 hours after; a wall-clock time met twice is
  read as the earlier one. The backend at 10:00 local time on 2026-10-30, with a
  discount ending on 2026-11-04, five days later.
\<close>

definition new_york :: runtime where
  "new_york =
     \<lparr>Date_parse = (\<lambda>s. None),
      LocalTZA = (\<lambda>t isUTC.
        if isUTC then (if t < 1793512800000 then - 14400000 else - 18000000)
        else (if t < 1793512800000 - 14400000 then - 14400000 else - 18000000))\<rparr>"

definition october_morning :: int where
  "october_morning = 1793368800000"

definition november_row :: row where
  "november_row =
     [JDate 1793768400000, JStr ''DISCOUNT'', JStr ''P1'', JStr ''Sale ends soon'',
      JStr ''Buy now'', JStr ''5 USD'', JStr ''10 USD'']"

definition november_server :: server where
  "november_server =
     \<lparr>PAYMENTS_SHEET = [payments_header], LOGS_SHEET = [],
      PROMOTIONS_SHEET = Some [promotions_header, november_row],
      SCRIPT_CACHE = \<lparr>paid_users_list = None, active_promotion_data = None\<rparr>\<rparr>"

text \<open>
  More promotion rows: free access until day 20003, a window that ended on day 19990,
  a row without an end date, and a row whose end date is a text that is no date.
\<close>

definition free_row :: row where
  "free_row =
     [JDate (20003 * 86400000 + 3600000), JStr ''FREE'', JStr [], JStr ''Free this week'',
      JStr [], JStr [], JStr []]"

definition expired_row :: row where
  "expired_row =
     [JDate (19990 * 86400000), JStr ''DISCOUNT'', JStr ''P0'', JStr ''Old sale'',
      JStr ''Buy'', JStr ''4 USD'', JStr ''10 USD'']"

definition blank_row :: row where
  "blank_row = [JStr [], JStr ''FREE'', JStr [], JStr ''Draft'', JStr [], JStr [], JStr []]"

definition text_row :: row where
  "text_row = [JStr ''soon'', JStr ''FREE'', JStr [], JStr ''Draft'', JStr [], JStr [], JStr []]"

text \<open>A backend with a paying user on record while free access is on offer.\<close>

definition paid_promo_server :: server where
  "paid_promo_server =
     \<lparr>PAYMENTS_SHEET = [payments_header, [JStr ''a@x.com'', JDate 0, JStr ''evt_1'']],
      LOGS_SHEET = [],
      PROMOTIONS_SHEET = Some [promotions_header, free_row],
      SCRIPT_CACHE = \<lparr>paid_users_list = None, active_promotion_data = None\<rparr>\<rparr>"

text \<open>A backend whose spreadsheet has no 'Promotions' tab.\<close>

definition no_promotions_server :: server where
  "no_promotions_server =
     \<lparr>PAYMENTS_SHEET = [payments_header], LOGS_SHEET = [],
      PROMOTIONS_SHEET = None,
      SCRIPT_CACHE = \<lparr>paid_users_list = None, active_promotion_data = None\<rparr>\<rparr>"

text \<open>
  A promotion ending on day 20006, looked up at 23:55 on day 20000 and again at 00:02
  on day 20001.
\<close>

definition next_week_row :: row where
  "next_week_row =
     [JDate (20006 * 86400000), JStr ''DISCOUNT'', JStr ''P1'', JStr ''Sale ends soon'',
      JStr ''Buy now'', JStr ''5 USD'', JStr ''10 USD'']"

definition late_server :: server where
  "late_server =
     \<lparr>PAYMENTS_SHEET = [payments_header], LOGS_SHEET = [],
      PROMOTIONS_SHEET = Some [promotions_header, next_week_row],
      SCRIPT_CACHE = \<lparr>paid_users_list = None, active_promotion_data = None\<rparr>\<rparr>"

definition before_midnight :: int where
  "before_midnight = 20000 * 86400000 + 86100000"

definition after_midnight :: int where
  "after_midnight = 20001 * 86400000 + 120000"


definition stale_client :: client where
  "stale_client =
     \<lparr>paymentState = None,
      premiumCache = Some \<lparr>cachedStatus = ''paid'', timestamp = ten_oclock - 86400000,
                            email = ''a@x.com''\<rparr>,
      fetches = 0, delays = []\<rparr>"


definition new_client :: client where
  "new_client = \<lparr>paymentState = None, premiumCache = None, fetches = 0, delays = []\<rparr>"

definition offline :: "nat \<Rightarrow> fetch_result" where
  "offline k = NetworkError"



section \<open>Properties of the idempotency lookup\<close>

lemma literal_of_escape_chars: "literal_of (escape_chars s) = Some s"
proof (induction s)
  case Nil
  show ?case by (simp add: escape_chars_def)
next
  case (Cons c s)
  have bs: "backslash \<in> set special" by (simp add: special_def)
  show ?case
  proof (cases "c \<in> set special")
    case True
    then show ?thesis using Cons by (simp add: escape_chars_def)
  next
    case False
    then have nb: "c \<noteq> backslash" using bs by auto
    show ?thesis
    proof (cases "escape_chars s")
      case Nil
      then have "s = []" by (cases s) (auto simp: escape_chars_def split: if_splits)
      then show ?thesis using False by (simp add: escape_chars_def)
    next
      case (Cons d ds)
      then show ?thesis using False nb Cons.IH
        by (simp add: escape_chars_def)
    qed
  qed
qed

lemma anchored_literal_regex_source:
  "anchored_literal (regex_source (escape_chars s)) = Some s"
  by (simp add: anchored_literal_def regex_source_def literal_of_escape_chars)

lemma cell_matches_exact:
  "cell_matches (regex_source (escape_chars s)) v \<longleftrightarrow> v = JStr s"
  by (cases v) (auto simp: cell_matches_def anchored_literal_regex_source)

lemma findNext_exact:
  "findNext (regex_source (escape_chars s)) cells \<noteq> None \<longleftrightarrow> JStr s \<in> set cells"
  by (auto simp: findNext_def find_None_iff cell_matches_exact)

text \<open>For a text event id the lookup is an exact search of the third column, and logs nothing.\<close>

lemma isEventProcessed_text:
  "isEventProcessed now (JStr s) sh st =
     (JStr s \<in> set (column_values sh 1 3 (length sh)), st)"
proof (cases "sh = []")
  case True
  then show ?thesis by (simp add: isEventProcessed_def getLastRow_def column_values_def)
next
  case False
  then have "\<not> length sh < 1" by (cases sh) auto
  then show ?thesis
    using findNext_exact [of s "column_values sh 1 3 (length sh)"]
    by (simp add: isEventProcessed_def getLastRow_def Let_def)
qed

section \<open>Properties of the webhook ingestor\<close>

lemma logError_frame [simp]:
  "PAYMENTS_SHEET (logError now f m vs st) = PAYMENTS_SHEET st"
  "SCRIPT_CACHE (logError now f m vs st) = SCRIPT_CACHE st"
  "PROMOTIONS_SHEET (logError now f m vs st) = PROMOTIONS_SHEET st"
  "LOGS_SHEET (logError now f m vs st) = LOGS_SHEET st @ [(now, f, m, vs)]"
  by (simp_all add: logError_def)

lemma isEventProcessed_frame:
  "PAYMENTS_SHEET (snd (isEventProcessed now eventId sh st)) = PAYMENTS_SHEET st"
  "SCRIPT_CACHE (snd (isEventProcessed now eventId sh st)) = SCRIPT_CACHE st"
  "PROMOTIONS_SHEET (snd (isEventProcessed now eventId sh st)) = PROMOTIONS_SHEET st"
  by (simp_all add: isEventProcessed_def Let_def split: sum.splits)

lemma records_with_eventId_column:
  "records_with_eventId v sh = [] \<longleftrightarrow> v \<notin> set (column_values sh 1 3 (length sh))"
  by (auto simp: records_with_eventId_def column_values_def filter_empty_conv)

lemma applyEvent_checkout:
  assumes "get_prop event ''type'' = Inr (JStr ''checkout.session.completed'')"
    and "get_prop event ''data'' = Inr d"
    and "get_prop d ''object'' = Inr session"
    and "get_prop session ''client_reference_id'' = Inr userEmail"
    and "truthy userEmail"
  shows "applyEvent now event eventId st =
     Inr (remove_paid_users_list
           (logError now ''handleStripeWebhook''
              ''Successfully queued record for ${userEmail} with Event ID: ${eventId}.''
              [userEmail, eventId]
              (st\<lparr>PAYMENTS_SHEET := appendRow [userEmail, JDate now, eventId] (PAYMENTS_SHEET st)\<rparr>)))"
  using assms by (simp add: applyEvent_def)

lemma applyEvent_frame:
  "applyEvent now event eventId st = Inr st' \<Longrightarrow> PROMOTIONS_SHEET st' = PROMOTIONS_SHEET st"
  by (auto simp: applyEvent_def remove_paid_users_list_def split: sum.splits if_splits)

lemma handleStripeWebhook_duplicate:
  assumes "get_prop event ''id'' = Inr eventId"
    and "fst (isEventProcessed now eventId (PAYMENTS_SHEET st) st)"
  shows "fst (handleStripeWebhook now (Some event) st) = Inr createStripeSuccessResponse"
    and "PAYMENTS_SHEET (snd (handleStripeWebhook now (Some event) st)) = PAYMENTS_SHEET st"
    and "SCRIPT_CACHE (snd (handleStripeWebhook now (Some event) st)) = SCRIPT_CACHE st"
  using assms isEventProcessed_frame [of now eventId "PAYMENTS_SHEET st" st]
  by (auto simp: handleStripeWebhook_def split: prod.splits)

lemma handleStripeWebhook_new:
  assumes "get_prop event ''id'' = Inr eventId"
    and "get_prop event ''type'' = Inr (JStr ''checkout.session.completed'')"
    and "get_prop event ''data'' = Inr d"
    and "get_prop d ''object'' = Inr session"
    and "get_prop session ''client_reference_id'' = Inr userEmail"
    and "truthy userEmail"
    and "\<not> fst (isEventProcessed now eventId (PAYMENTS_SHEET st) st)"
  shows "fst (handleStripeWebhook now (Some event) st) = Inr createStripeSuccessResponse"
    and "PAYMENTS_SHEET (snd (handleStripeWebhook now (Some event) st)) =
           PAYMENTS_SHEET st @ [[userEmail, JDate now, eventId]]"
    and "SCRIPT_CACHE (snd (handleStripeWebhook now (Some event) st)) =
           (SCRIPT_CACHE st)\<lparr>paid_users_list := None\<rparr>"
  using assms isEventProcessed_frame [of now eventId "PAYMENTS_SHEET st" st]
    applyEvent_checkout [OF assms(2-6)]
  by (auto simp: handleStripeWebhook_def remove_paid_users_list_def appendRow_def split: prod.splits)

lemma replay_Cons_fst:
  "fst (replay c (t # ts) st) =
     fst (handleStripeWebhook t c st) # fst (replay c ts (snd (handleStripeWebhook t c st)))"
  by (simp split: prod.splits)

lemma replay_Cons_snd:
  "snd (replay c (t # ts) st) = snd (replay c ts (snd (handleStripeWebhook t c st)))"
  by (simp split: prod.splits)

lemma replay_duplicates:
  assumes "get_prop event ''id'' = Inr (JStr i)"
  shows "records_with_eventId (JStr i) (PAYMENTS_SHEET st) \<noteq> [] \<Longrightarrow>
         fst (replay (Some event) ts st) = replicate (length ts) (Inr createStripeSuccessResponse) \<and>
         PAYMENTS_SHEET (snd (replay (Some event) ts st)) = PAYMENTS_SHEET st \<and>
         SCRIPT_CACHE (snd (replay (Some event) ts st)) = SCRIPT_CACHE st"
proof (induction ts arbitrary: st)
  case Nil
  show ?case by simp
next
  case (Cons t ts)
  have dup: "fst (isEventProcessed t (JStr i) (PAYMENTS_SHEET st) st)"
    using Cons.prems by (simp add: isEventProcessed_text records_with_eventId_column)
  note step = handleStripeWebhook_duplicate [OF assms dup]
  have "records_with_eventId (JStr i) (PAYMENTS_SHEET (snd (handleStripeWebhook t (Some event) st))) \<noteq> []"
    using Cons.prems step by simp
  from Cons.IH [OF this] show ?case
    using step by (simp only: replay_Cons_fst replay_Cons_snd) simp
qed

text \<open>
  C6. A webhook request whose body is not parseable JSON is acknowledged with the
  success response; the Payments sheet and the script cache stay as they were (only
  a line is added to the error log).
\<close>

theorem webhook_malformed_acknowledged:
  "fst (handleStripeWebhook now None st) = Inr createStripeSuccessResponse \<and>
   PAYMENTS_SHEET (snd (handleStripeWebhook now None st)) = PAYMENTS_SHEET st \<and>
   SCRIPT_CACHE (snd (handleStripeWebhook now None st)) = SCRIPT_CACHE st"
  by (simp add: handleStripeWebhook_def)

theorem webhook_malformed_acknowledged_witness:
  "fst (handleStripeWebhook 1000 None fresh_server) = Inr createStripeSuccessResponse \<and>
   PAYMENTS_SHEET (snd (handleStripeWebhook 1000 None fresh_server)) = [payments_header] \<and>
   SCRIPT_CACHE (snd (handleStripeWebhook 1000 None fresh_server)) =
     \<lparr>paid_users_list = None, active_promotion_data = None\<rparr>"
  using webhook_malformed_acknowledged [of 1000 fresh_server]
  by (simp add: fresh_server_def)

text \<open>
  C1 (as amended). For a notification with a text event id that the ledger does not
  hold yet, of type checkout.session.completed and carrying a client reference:
  delivered one or more times, every delivery is acknowledged, the first appends one
  row and removes the paid-user cache entry, and the ledger ends with exactly one
  record of that event id. Any delivery to a state whose ledger holds the id is
  acknowledged and leaves the ledger and the cache unchanged.
\<close>

theorem webhook_replay_exactly_once:
  assumes id: "get_prop event ''id'' = Inr (JStr i)"
    and ty: "get_prop event ''type'' = Inr (JStr ''checkout.session.completed'')"
    and da: "get_prop event ''data'' = Inr d"
    and ob: "get_prop d ''object'' = Inr session"
    and cr: "get_prop session ''client_reference_id'' = Inr userEmail"
    and tr: "truthy userEmail"
    and new: "records_with_eventId (JStr i) (PAYMENTS_SHEET st) = []"
  shows "fst (replay (Some event) (t # later) st) =
           replicate (Suc (length later)) (Inr createStripeSuccessResponse) \<and>
         PAYMENTS_SHEET (snd (replay (Some event) (t # later) st)) =
           PAYMENTS_SHEET st @ [[userEmail, JDate t, JStr i]] \<and>
         records_with_eventId (JStr i) (PAYMENTS_SHEET (snd (replay (Some event) (t # later) st))) =
           [[userEmail, JDate t, JStr i]] \<and>
         SCRIPT_CACHE (snd (replay (Some event) (t # later) st)) =
           (SCRIPT_CACHE st)\<lparr>paid_users_list := None\<rparr> \<and>
         (\<forall>t' s. records_with_eventId (JStr i) (PAYMENTS_SHEET s) \<noteq> [] \<longrightarrow>
            fst (handleStripeWebhook t' (Some event) s) = Inr createStripeSuccessResponse \<and>
            PAYMENTS_SHEET (snd (handleStripeWebhook t' (Some event) s)) = PAYMENTS_SHEET s \<and>
            SCRIPT_CACHE (snd (handleStripeWebhook t' (Some event) s)) = SCRIPT_CACHE s)"
proof -
  have fresh: "\<not> fst (isEventProcessed t (JStr i) (PAYMENTS_SHEET st) st)"
    using new by (simp add: isEventProcessed_text records_with_eventId_column)
  note first = handleStripeWebhook_new [OF id ty da ob cr tr fresh]
  define st1 where "st1 = snd (handleStripeWebhook t (Some event) st)"
  have r: "fst (handleStripeWebhook t (Some event) st) = Inr createStripeSuccessResponse"
    and p1: "PAYMENTS_SHEET st1 = PAYMENTS_SHEET st @ [[userEmail, JDate t, JStr i]]"
    and c1: "SCRIPT_CACHE st1 = (SCRIPT_CACHE st)\<lparr>paid_users_list := None\<rparr>"
    using first by (simp_all add: st1_def)
  have one: "records_with_eventId (JStr i) (PAYMENTS_SHEET st1) = [[userEmail, JDate t, JStr i]]"
    using new p1 by (simp add: records_with_eventId_def cell_at_def)
  then have "records_with_eventId (JStr i) (PAYMENTS_SHEET st1) \<noteq> []" by simp
  note rest = replay_duplicates [OF id this, of later]
  have a: "fst (replay (Some event) (t # later) st) =
           replicate (Suc (length later)) (Inr createStripeSuccessResponse)"
    using r rest unfolding replay_Cons_fst st1_def by simp
  have b: "snd (replay (Some event) (t # later) st) = snd (replay (Some event) later st1)"
    unfolding replay_Cons_snd st1_def by simp
  have dup: "\<forall>t' s. records_with_eventId (JStr i) (PAYMENTS_SHEET s) \<noteq> [] \<longrightarrow>
            fst (handleStripeWebhook t' (Some event) s) = Inr createStripeSuccessResponse \<and>
            PAYMENTS_SHEET (snd (handleStripeWebhook t' (Some event) s)) = PAYMENTS_SHEET s \<and>
            SCRIPT_CACHE (snd (handleStripeWebhook t' (Some event) s)) = SCRIPT_CACHE s"
  proof (intro allI impI)
    fix t' :: int and s :: server
    assume "records_with_eventId (JStr i) (PAYMENTS_SHEET s) \<noteq> []"
    then have "fst (isEventProcessed t' (JStr i) (PAYMENTS_SHEET s) s)"
      by (simp add: isEventProcessed_text records_with_eventId_column)
    from handleStripeWebhook_duplicate [OF id this]
    show "fst (handleStripeWebhook t' (Some event) s) = Inr createStripeSuccessResponse \<and>
            PAYMENTS_SHEET (snd (handleStripeWebhook t' (Some event) s)) = PAYMENTS_SHEET s \<and>
            SCRIPT_CACHE (snd (handleStripeWebhook t' (Some event) s)) = SCRIPT_CACHE s"
      by simp
  qed
  show ?thesis using a b rest p1 c1 one dup by simp
qed

lemma checkout_completed_props:
  "get_prop (checkout_completed i ref) ''id'' = Inr (JStr i)"
  "get_prop (checkout_completed i ref) ''type'' = Inr (JStr ''checkout.session.completed'')"
  "get_prop (checkout_completed i ref) ''data'' = Inr (JObj [(''object'', JObj [(''client_reference_id'', ref)])])"
  "get_prop (JObj [(''object'', JObj [(''client_reference_id'', ref)])]) ''object'' =
     Inr (JObj [(''client_reference_id'', ref)])"
  "get_prop (JObj [(''client_reference_id'', ref)]) ''client_reference_id'' = Inr ref"
  by (simp_all add: checkout_completed_def)

theorem webhook_replay_exactly_once_witness:
  "records_with_eventId (JStr ''evt_1'') (PAYMENTS_SHEET warm_server) = [] \<and>
   truthy (JStr ''b@x.com'') \<and>
   fst (replay (Some (checkout_completed ''evt_1'' (JStr ''b@x.com''))) [1000, 2000, 3000] warm_server) =
     [Inr createStripeSuccessResponse, Inr createStripeSuccessResponse, Inr createStripeSuccessResponse] \<and>
   records_with_eventId (JStr ''evt_1'')
     (PAYMENTS_SHEET (snd (replay (Some (checkout_completed ''evt_1'' (JStr ''b@x.com'')))
        [1000, 2000, 3000] warm_server))) = [[JStr ''b@x.com'', JDate 1000, JStr ''evt_1'']] \<and>
   paid_users_list (SCRIPT_CACHE (snd (replay (Some (checkout_completed ''evt_1'' (JStr ''b@x.com'')))
        [1000, 2000, 3000] warm_server))) = None \<and>
   records_with_eventId (JStr ''evt_1'')
     (PAYMENTS_SHEET
       (snd (getPaidUsersFromCacheOrSheet 1500
         (snd (handleStripeWebhook 1000 (Some (checkout_completed ''evt_1'' (JStr ''b@x.com''))) warm_server))))) \<noteq> [] \<and>
   paid_users_list (SCRIPT_CACHE
     (snd (handleStripeWebhook 2000 (Some (checkout_completed ''evt_1'' (JStr ''b@x.com'')))
       (snd (getPaidUsersFromCacheOrSheet 1500
         (snd (handleStripeWebhook 1000 (Some (checkout_completed ''evt_1'' (JStr ''b@x.com''))) warm_server))))))) =
     Some ([JStr ''a@x.com'', JStr ''b@x.com''], 3601500)"
proof -
  define s where "s = snd (getPaidUsersFromCacheOrSheet 1500
         (snd (handleStripeWebhook 1000 (Some (checkout_completed ''evt_1'' (JStr ''b@x.com''))) warm_server)))"
  have new: "records_with_eventId (JStr ''evt_1'') (PAYMENTS_SHEET warm_server) = []"
    by code_simp
  have tr: "truthy (JStr ''b@x.com'')" by simp
  have held: "records_with_eventId (JStr ''evt_1'') (PAYMENTS_SHEET s) \<noteq> []"
    unfolding s_def by code_simp
  have refilled: "paid_users_list (SCRIPT_CACHE s) = Some ([JStr ''a@x.com'', JStr ''b@x.com''], 3601500)"
    unfolding s_def by code_simp
  note w = webhook_replay_exactly_once [OF checkout_completed_props tr new, of 1000 "[2000, 3000]"]
  note acks = w [THEN conjunct1]
  note one = w [THEN conjunct2, THEN conjunct2, THEN conjunct1]
  note cache = w [THEN conjunct2, THEN conjunct2, THEN conjunct2, THEN conjunct1]
  note dup = w [THEN conjunct2, THEN conjunct2, THEN conjunct2, THEN conjunct2, rule_format, OF held, of 2000]
  have gone: "paid_users_list (SCRIPT_CACHE (snd (replay (Some (checkout_completed ''evt_1'' (JStr ''b@x.com'')))
        [1000, 2000, 3000] warm_server))) = None"
    by (simp only: cache) simp
  have kept: "paid_users_list (SCRIPT_CACHE
     (snd (handleStripeWebhook 2000 (Some (checkout_completed ''evt_1'' (JStr ''b@x.com''))) s))) =
     Some ([JStr ''a@x.com'', JStr ''b@x.com''], 3601500)"
    using dup refilled by simp
  show ?thesis
    using new tr acks one gone held kept unfolding s_def by (simp del: replay.simps)
qed

text \<open>
  The claim C1 as stated fails for a completed checkout session without a client
  reference: both deliveries pass parsing and the idempotency check, both are
  acknowledged, and no record is written.
\<close>

theorem webhook_replay_counterexample:
  "fst (replay (Some (checkout_completed ''evt_1'' JNull)) [1000, 2000] fresh_server) =
     [Inr createStripeSuccessResponse, Inr createStripeSuccessResponse] \<and>
   records_with_eventId (JStr ''evt_1'')
     (PAYMENTS_SHEET (snd (replay (Some (checkout_completed ''evt_1'' JNull)) [1000, 2000] fresh_server))) = []"
  by code_simp

text \<open>
  C8. When the ingestor appends the record of a checkout.session.completed event
  carrying a client reference, the paid-user cache entry is gone afterwards, and the
  next read of the paid-user list, at any time, is taken from the sheet: the e-mail
  cells of the rows below the header, ending with the new one. The Payments sheet is
  assumed to have its header row.
\<close>

theorem paid_cache_invalidated_on_append:
  assumes id: "get_prop event ''id'' = Inr eventId"
    and ty: "get_prop event ''type'' = Inr (JStr ''checkout.session.completed'')"
    and da: "get_prop event ''data'' = Inr d"
    and ob: "get_prop d ''object'' = Inr session"
    and cr: "get_prop session ''client_reference_id'' = Inr userEmail"
    and tr: "truthy userEmail"
    and new: "\<not> fst (isEventProcessed t eventId (PAYMENTS_SHEET st) st)"
    and header: "PAYMENTS_SHEET st \<noteq> []"
  shows "PAYMENTS_SHEET (snd (handleStripeWebhook t (Some event) st)) =
           PAYMENTS_SHEET st @ [[userEmail, JDate t, eventId]] \<and>
         paid_users_list (SCRIPT_CACHE (snd (handleStripeWebhook t (Some event) st))) = None \<and>
         fst (getPaidUsersFromCacheOrSheet t' (snd (handleStripeWebhook t (Some event) st))) =
           column_values (PAYMENTS_SHEET st) 2 1 (length (PAYMENTS_SHEET st) - 1) @ [userEmail]"
proof -
  define st1 where "st1 = snd (handleStripeWebhook t (Some event) st)"
  note first = handleStripeWebhook_new [OF id ty da ob cr tr new]
  have p1: "PAYMENTS_SHEET st1 = PAYMENTS_SHEET st @ [[userEmail, JDate t, eventId]]"
    and c1: "paid_users_list (SCRIPT_CACHE st1) = None"
    using first by (simp_all add: st1_def)
  obtain h rest where sh: "PAYMENTS_SHEET st = h # rest"
    using header by (cases "PAYMENTS_SHEET st") auto
  have "fst (getPaidUsersFromCacheOrSheet t' st1) =
          column_values (PAYMENTS_SHEET st) 2 1 (length (PAYMENTS_SHEET st) - 1) @ [userEmail]"
    using p1 c1 sh
    by (simp add: getPaidUsersFromCacheOrSheet_def cache_get_def getLastRow_def Let_def
        column_values_def cell_at_def)
  then show ?thesis using p1 c1 by (simp add: st1_def)
qed

theorem paid_cache_invalidated_on_append_witness:
  "\<not> fst (isEventProcessed 1000 (JStr ''evt_1'') (PAYMENTS_SHEET warm_server) warm_server) \<and>
   cache_get 1001 (paid_users_list (SCRIPT_CACHE warm_server)) = Some [JStr ''a@x.com''] \<and>
   fst (getPaidUsersFromCacheOrSheet 1001
         (snd (handleStripeWebhook 1000 (Some (checkout_completed ''evt_1'' (JStr ''b@x.com''))) warm_server))) =
     [JStr ''a@x.com'', JStr ''b@x.com'']"
proof -
  have new: "\<not> fst (isEventProcessed 1000 (JStr ''evt_1'') (PAYMENTS_SHEET warm_server) warm_server)"
    by code_simp
  have tr: "truthy (JStr ''b@x.com'')" by simp
  have header: "PAYMENTS_SHEET warm_server \<noteq> []" by (simp add: warm_server_def)
  have hit: "cache_get 1001 (paid_users_list (SCRIPT_CACHE warm_server)) = Some [JStr ''a@x.com'']"
    by code_simp
  have col: "column_values (PAYMENTS_SHEET warm_server) 2 1 (length (PAYMENTS_SHEET warm_server) - 1)
              = [JStr ''a@x.com'']"
    by code_simp
  from paid_cache_invalidated_on_append [OF checkout_completed_props tr new header, of 1001]
  show ?thesis using new hit col by simp
qed

section \<open>Properties of the promotion resolver\<close>

lemma Math_ceil_div_ceiling:
  "Math_ceil_div a b = \<lceil>real_of_int a / real_of_int b\<rceil>"
  by (simp add: Math_ceil_div_def ceiling_divide_eq_div)

lemma day_ms_pos: "0 < day_ms"
  by (simp add: day_ms_def)

lemma setHours_start: "setHours env 0 0 0 0 t = day_start env (local_day env t)"
  by (simp add: setHours_def day_start_def local_day_def)

lemma setHours_end: "setHours env 23 59 59 999 t = day_end env (local_day env t)"
  by (simp add: setHours_def day_end_def local_day_def)

lemma end_of_day_ge_iff:
  assumes "days_in_order env"
  shows "setHours env 0 0 0 0 now \<le> setHours env 23 59 59 999 d \<longleftrightarrow>
           local_day env now \<le> local_day env d"
  using assms by (simp add: setHours_start setHours_end days_in_order_def)

text \<open>
  A zone whose offset never rises keeps its days in order: the conversion of wall-clock
  times to UTC is then strictly increasing.
\<close>

lemma falling_offset_days_in_order:
  assumes "\<And>w1 w2. w1 \<le> w2 \<Longrightarrow> LocalTZA env w2 False \<le> LocalTZA env w1 False"
  shows "days_in_order env"
proof -
  have mono: "UTC env w1 < UTC env w2" if "w1 < w2" for w1 w2
    using assms [of w1 w2] that by (simp add: UTC_def)
  have "(day_start env a \<le> day_end env b) = (a \<le> b)" for a b
  proof (cases "a \<le> b")
    case True
    then have "a * day_ms \<le> b * day_ms"
      using day_ms_pos by (simp add: mult_right_mono)
    then have "a * day_ms < b * day_ms + (23 * 3600000 + 59 * 60000 + 59 * 1000 + 999)"
      by simp
    from mono [OF this] show ?thesis using True by (simp add: day_start_def day_end_def)
  next
    case False
    then have "b + 1 \<le> a" by simp
    then have "(b + 1) * day_ms \<le> a * day_ms"
      using day_ms_pos by (simp only: mult_right_mono less_imp_le)
    then have "b * day_ms + (23 * 3600000 + 59 * 60000 + 59 * 1000 + 999) < a * day_ms"
      by (simp add: day_ms_def algebra_simps)
    from mono [OF this] show ?thesis using False by (simp add: day_start_def day_end_def)
  qed
  then show ?thesis by (simp add: days_in_order_def)
qed

lemma fixed_offset_days_in_order:
  assumes "\<And>w. LocalTZA env w False = c"
  shows "days_in_order env"
  by (rule falling_offset_days_in_order) (simp add: assms)

lemma utc_runtime_days_in_order: "days_in_order utc_runtime"
  by (rule falling_offset_days_in_order) (simp add: utc_runtime_def)

lemma new_york_days_in_order: "days_in_order new_york"
  by (rule falling_offset_days_in_order) (simp add: new_york_def)

lemma daysLeft_closed_form:
  assumes "LocalTZA env (local_day env d * day_ms + 86399999) False =
           LocalTZA env (local_day env now * day_ms) False"
  shows "Math_ceil_div (setHours env 23 59 59 999 d - setHours env 0 0 0 0 now) day_ms =
           local_day env d - local_day env now + 1"
proof -
  define k where "k = local_day env d - local_day env now"
  have "- (setHours env 23 59 59 999 d - setHours env 0 0 0 0 now) = 1 + (- (k + 1)) * day_ms"
    using assms
    by (simp add: setHours_start setHours_end day_start_def day_end_def UTC_def k_def)
       (simp add: day_ms_def algebra_simps)
  then have "(- (setHours env 23 59 59 999 d - setHours env 0 0 0 0 now)) div day_ms = - (k + 1)"
    using day_ms_pos by (simp only: div_mult_self1) (simp add: day_ms_def)
  then show ?thesis by (simp add: Math_ceil_div_def k_def)
qed

lemma evalRow_eq:
  assumes "days_in_order env"
  shows "evalRow env (setHours env 0 0 0 0 now) r =
     (case end_date env r of
        None \<Rightarrow> None
      | Some d \<Rightarrow>
          if local_day env now \<le> local_day env d then
            Some \<lparr>type = row_at r 1, promoCodeId = row_at r 2, message = row_at r 3,
                  buttonText = row_at r 4, salePriceText = row_at r 5,
                  originalPrice = row_at r 6,
                  daysLeft = Math_ceil_div
                    (setHours env 23 59 59 999 d - setHours env 0 0 0 0 now) day_ms\<rparr>
          else None)"
  by (simp add: evalRow_def end_date_def Let_def end_of_day_ge_iff [OF assms]
      split: option.splits)

lemma evalRow_active:
  assumes "days_in_order env"
  shows "evalRow env (setHours env 0 0 0 0 now) r \<noteq> None \<longleftrightarrow> window_active env now r"
  by (simp add: evalRow_eq [OF assms] window_active_def split: option.splits)

lemma scanRows_find:
  "scanRows env today rows =
     (case find (\<lambda>r. evalRow env today r \<noteq> None) rows of
        None \<Rightarrow> None
      | Some r \<Rightarrow> evalRow env today r)"
  by (induction rows) (auto split: option.splits)

lemma scanRows_selected:
  assumes "days_in_order env"
  shows "scanRows env (setHours env 0 0 0 0 now) rows =
     (case selected_window env now rows of
        None \<Rightarrow> None
      | Some r \<Rightarrow> evalRow env (setHours env 0 0 0 0 now) r)"
proof -
  have "(\<lambda>r. evalRow env (setHours env 0 0 0 0 now) r \<noteq> None) = window_active env now"
    by (rule ext) (rule evalRow_active [OF assms])
  then show ?thesis by (simp only: scanRows_find selected_window_def)
qed

lemma getActivePromotion_miss:
  assumes "cache_get now (active_promotion_data (SCRIPT_CACHE st)) = None"
    and "PROMOTIONS_SHEET st = Some sh"
  shows "fst (getActivePromotion env now st) =
           (case scanRows env (setHours env 0 0 0 0 now) (drop 1 (getValues sh)) of
              Some promoInfo \<Rightarrow> HasPromo promoInfo
            | None \<Rightarrow> NoPromo)"
  using assms
  by (simp add: getActivePromotion_def getActivePromotion_try_def Let_def)

text \<open>
  C4 (as amended). Whenever the promotion table is evaluated (the promotion cache
  holds no live entry), the window selected is reported with daysLeft equal to the
  ceiling of (end of day of its end date minus start of today) over one day. When
  the same UTC offset is in force at the end of the end date and at the start of
  today (no daylight-saving shift lies between them), this is the number of calendar
  days from today to the end date plus one, and 6 for an end date five days after
  today. The time zone is one whose days follow one another in time.
\<close>

theorem promotion_daysLeft:
  assumes order: "days_in_order env"
    and miss: "cache_get now (active_promotion_data (SCRIPT_CACHE st)) = None"
    and sheet: "PROMOTIONS_SHEET st = Some sh"
    and sel: "selected_window env now (drop 1 (getValues sh)) = Some r"
    and date: "end_date env r = Some d"
  shows "(case fst (getActivePromotion env now st) of
            NoPromo \<Rightarrow> False
          | HasPromo promoInfo \<Rightarrow>
              daysLeft promoInfo =
                \<lceil>real_of_int (setHours env 23 59 59 999 d - setHours env 0 0 0 0 now) /
                 real_of_int day_ms\<rceil> \<and>
              (LocalTZA env (local_day env d * day_ms + 86399999) False =
               LocalTZA env (local_day env now * day_ms) False \<longrightarrow>
                 daysLeft promoInfo = local_day env d - local_day env now + 1 \<and>
                 (local_day env d = local_day env now + 5 \<longrightarrow> daysLeft promoInfo = 6)))"
proof -
  have act: "window_active env now r"
    using sel by (auto simp: selected_window_def find_Some_iff)
  then have ge: "local_day env now \<le> local_day env d"
    using date by (simp add: window_active_def)
  have "fst (getActivePromotion env now st) =
          HasPromo \<lparr>type = row_at r 1, promoCodeId = row_at r 2, message = row_at r 3,
                  buttonText = row_at r 4, salePriceText = row_at r 5,
                  originalPrice = row_at r 6,
                  daysLeft = Math_ceil_div
                    (setHours env 23 59 59 999 d - setHours env 0 0 0 0 now) day_ms\<rparr>"
    using sel date ge
    by (simp add: getActivePromotion_miss [OF miss sheet] scanRows_selected [OF order]
        evalRow_eq [OF order])
  moreover have "Math_ceil_div (setHours env 23 59 59 999 d - setHours env 0 0 0 0 now) day_ms =
      \<lceil>real_of_int (setHours env 23 59 59 999 d - setHours env 0 0 0 0 now) / real_of_int day_ms\<rceil>"
    by (rule Math_ceil_div_ceiling)
  moreover have "Math_ceil_div (setHours env 23 59 59 999 d - setHours env 0 0 0 0 now) day_ms =
      local_day env d - local_day env now + 1"
    if "LocalTZA env (local_day env d * day_ms + 86399999) False =
        LocalTZA env (local_day env now * day_ms) False"
    using that by (rule daysLeft_closed_form)
  ultimately show ?thesis by (auto simp del: of_int_diff)
qed

text \<open>
  C5. The scan of the promotion rows returns the snapshot of the first row, in stored
  order, whose window is active: a row is passed over exactly when its end date is
  missing or unparseable or its day lies before today, and a row is taken when the
  day of its end date is today or later. Of two active windows the one stored first
  is chosen. On a cache miss \<open>getActivePromotion\<close> reports this selection among the
  rows below the header. Days are the local calendar days of the script's time zone,
  which is taken to keep its days in order (as every zone with a fixed offset does,
  and New York across the end of daylight saving time: the lemmas above).
\<close>

theorem promotion_selection_first_active:
  assumes order: "days_in_order env"
  shows "scanRows env (setHours env 0 0 0 0 now) rows =
     (case selected_window env now rows of
        None \<Rightarrow> None
      | Some r \<Rightarrow> evalRow env (setHours env 0 0 0 0 now) r) \<and>
   (\<forall>r. evalRow env (setHours env 0 0 0 0 now) r = None \<longleftrightarrow> \<not> window_active env now r) \<and>
   (\<forall>r. end_date env r = None \<longrightarrow> scanRows env (setHours env 0 0 0 0 now) (r # rows) =
          scanRows env (setHours env 0 0 0 0 now) rows) \<and>
   (\<forall>pre r1 mid r2 post.
      rows = pre @ r1 # mid @ r2 # post \<and> (\<forall>r \<in> set pre. \<not> window_active env now r) \<and>
      window_active env now r1 \<and> window_active env now r2 \<longrightarrow>
        scanRows env (setHours env 0 0 0 0 now) rows = evalRow env (setHours env 0 0 0 0 now) r1 \<and>
        evalRow env (setHours env 0 0 0 0 now) r1 \<noteq> None) \<and>
   (\<forall>st sh. cache_get now (active_promotion_data (SCRIPT_CACHE st)) = None \<and>
        PROMOTIONS_SHEET st = Some sh \<longrightarrow>
        fst (getActivePromotion env now st) =
          (case selected_window env now (drop 1 (getValues sh)) of
             None \<Rightarrow> NoPromo
           | Some r \<Rightarrow>
               (case evalRow env (setHours env 0 0 0 0 now) r of
                  None \<Rightarrow> NoPromo
                | Some promoInfo \<Rightarrow> HasPromo promoInfo)))"
proof (intro conjI allI impI)
  show "scanRows env (setHours env 0 0 0 0 now) rows =
     (case selected_window env now rows of
        None \<Rightarrow> None
      | Some r \<Rightarrow> evalRow env (setHours env 0 0 0 0 now) r)"
    by (rule scanRows_selected [OF order])
next
  fix r
  show "evalRow env (setHours env 0 0 0 0 now) r = None \<longleftrightarrow> \<not> window_active env now r"
    using evalRow_active [OF order, of now r] by blast
next
  fix r
  assume "end_date env r = None"
  then show "scanRows env (setHours env 0 0 0 0 now) (r # rows) =
          scanRows env (setHours env 0 0 0 0 now) rows"
    by (simp add: evalRow_eq [OF order])
next
  fix pre r1 mid r2 post
  assume a: "rows = pre @ r1 # mid @ r2 # post \<and> (\<forall>r \<in> set pre. \<not> window_active env now r) \<and>
      window_active env now r1 \<and> window_active env now r2"
  then have "selected_window env now rows = Some r1"
    by (auto simp: selected_window_def find_Some_iff nth_append intro!: exI [of _ "length pre"])
  then show "scanRows env (setHours env 0 0 0 0 now) rows = evalRow env (setHours env 0 0 0 0 now) r1"
    by (simp add: scanRows_selected [OF order])
  show "evalRow env (setHours env 0 0 0 0 now) r1 \<noteq> None"
    using a evalRow_active [OF order, of now r1] by blast
next
  fix st :: server and sh
  assume "cache_get now (active_promotion_data (SCRIPT_CACHE st)) = None \<and>
        PROMOTIONS_SHEET st = Some sh"
  then show "fst (getActivePromotion env now st) =
          (case selected_window env now (drop 1 (getValues sh)) of
             None \<Rightarrow> NoPromo
           | Some r \<Rightarrow>
               (case evalRow env (setHours env 0 0 0 0 now) r of
                  None \<Rightarrow> NoPromo
                | Some promoInfo \<Rightarrow> HasPromo promoInfo))"
    by (simp add: getActivePromotion_miss scanRows_selected [OF order] split: option.splits)
qed

lemma getActivePromotion_try_fails_iff:
  "(\<exists>err. fst (getActivePromotion_try env now st) = Inl err) \<longleftrightarrow>
     cache_get now (active_promotion_data (SCRIPT_CACHE st)) = None \<and> PROMOTIONS_SHEET st = None"
  by (auto simp: getActivePromotion_try_def Let_def split: option.splits)

text \<open>
  C10. \<open>getActivePromotion\<close> always returns a response. When its \<^verbatim>\<open>try\<close> block
  throws, the response is \<^verbatim>\<open>{hasPromo: false}\<close> and the script cache is left as it
  was, so the next call evaluates again.
\<close>

theorem getActivePromotion_failure_safe:
  assumes "fst (getActivePromotion_try env now st) = Inl err"
  shows "fst (getActivePromotion env now st) = NoPromo \<and>
         SCRIPT_CACHE (snd (getActivePromotion env now st)) = SCRIPT_CACHE st \<and>
         PAYMENTS_SHEET (snd (getActivePromotion env now st)) = PAYMENTS_SHEET st \<and>
         PROMOTIONS_SHEET (snd (getActivePromotion env now st)) = PROMOTIONS_SHEET st"
  using assms
  by (auto simp: getActivePromotion_def getActivePromotion_try_def Let_def
      split: option.splits prod.splits sum.splits)

section \<open>Properties of the entitlement resolver\<close>

lemma getPaidUsers_coherent:
  assumes "paid_cache_coherent st"
  shows "fst (getPaidUsersFromCacheOrSheet now st) = ledger_emails (PAYMENTS_SHEET st)"
  using assms
  by (auto simp: getPaidUsersFromCacheOrSheet_def paid_cache_coherent_def cache_get_def Let_def
      ledger_emails_def getLastRow_def column_values_def split: option.splits if_splits)

lemma getPaidUsers_frame:
  "PAYMENTS_SHEET (snd (getPaidUsersFromCacheOrSheet now st)) = PAYMENTS_SHEET st"
  "PROMOTIONS_SHEET (snd (getPaidUsersFromCacheOrSheet now st)) = PROMOTIONS_SHEET st"
  "active_promotion_data (SCRIPT_CACHE (snd (getPaidUsersFromCacheOrSheet now st))) =
     active_promotion_data (SCRIPT_CACHE st)"
  by (auto simp: getPaidUsersFromCacheOrSheet_def Let_def split: option.splits)

lemma getPaidUsers_keeps_coherent:
  "paid_cache_coherent st \<Longrightarrow> paid_cache_coherent (snd (getPaidUsersFromCacheOrSheet now st))"
  by (auto simp: getPaidUsersFromCacheOrSheet_def paid_cache_coherent_def cache_get_def cache_put_def
      Let_def ledger_emails_def getLastRow_def split: option.splits if_splits)

lemma getActivePromotion_frame:
  "PAYMENTS_SHEET (snd (getActivePromotion env now st)) = PAYMENTS_SHEET st"
  "paid_users_list (SCRIPT_CACHE (snd (getActivePromotion env now st))) =
     paid_users_list (SCRIPT_CACHE st)"
  by (auto simp: getActivePromotion_def getActivePromotion_try_def Let_def
      split: option.splits prod.splits sum.splits)

lemma paid_cache_coherent_cong:
  "PAYMENTS_SHEET st' = PAYMENTS_SHEET st \<Longrightarrow>
   paid_users_list (SCRIPT_CACHE st') = paid_users_list (SCRIPT_CACHE st) \<Longrightarrow>
   paid_cache_coherent st' = paid_cache_coherent st"
  by (simp add: paid_cache_coherent_def split: option.splits prod.splits)

lemma handleVerify_keeps_coherent:
  assumes "paid_cache_coherent st"
  shows "paid_cache_coherent (snd (handleVerify env now userEmail st))"
proof -
  define st1 where "st1 = snd (getPaidUsersFromCacheOrSheet now st)"
  have c1: "paid_cache_coherent st1"
    using assms by (simp add: st1_def getPaidUsers_keeps_coherent)
  have c2: "paid_cache_coherent (snd (getActivePromotion env now st1))"
    using c1 paid_cache_coherent_cong [OF getActivePromotion_frame, of env now st1] by simp
  have c3: "\<And>f m vs s. paid_cache_coherent (logError now f m vs s) = paid_cache_coherent s"
    by (rule paid_cache_coherent_cong) simp_all
  show ?thesis
    using c1 c2 c3 unfolding handleVerify_def st1_def
    by (auto split: prod.splits promo.splits)
qed

lemma handleStripeWebhook_keeps_coherent:
  assumes "paid_cache_coherent st"
  shows "paid_cache_coherent (snd (handleStripeWebhook now contents st))"
proof -
  have iep: "\<And>eventId. paid_cache_coherent (snd (isEventProcessed now eventId (PAYMENTS_SHEET st) st))"
    using assms paid_cache_coherent_cong [OF isEventProcessed_frame(1), of now _ "PAYMENTS_SHEET st" st]
    by (simp add: isEventProcessed_frame)
  have ae: "\<And>event eventId s s'. paid_cache_coherent s \<Longrightarrow> applyEvent now event eventId s = Inr s'
              \<Longrightarrow> paid_cache_coherent s'"
    by (auto simp: applyEvent_def paid_cache_coherent_def remove_paid_users_list_def
        split: sum.splits if_splits option.splits prod.splits)
  have lg: "\<And>f m vs s. paid_cache_coherent (logError now f m vs s) = paid_cache_coherent s"
    by (rule paid_cache_coherent_cong) simp_all
  show ?thesis
    using assms iep ae lg unfolding handleStripeWebhook_def
    by (auto split: option.splits sum.splits prod.splits) (metis snd_conv)+
qed

lemma fresh_server_coherent: "paid_cache_coherent fresh_server"
  by (simp add: paid_cache_coherent_def fresh_server_def)

text \<open>
  C2. For every e-mail in the paid-user set, \<open>handleVerify\<close> answers
  \<^verbatim>\<open>{status: 'paid', promoData: null}\<close>, whatever the promotions sheet and the
  promotion cache hold: both for the set as \<open>getPaidUsersFromCacheOrSheet\<close> yields
  it, and for the e-mails of the ledger itself when the cached list is coherent with
  the ledger (an invariant of the webhook and of \<open>handleVerify\<close>, shown above).
\<close>

theorem handleVerify_paid:
  "(JStr userEmail \<in> set (fst (getPaidUsersFromCacheOrSheet now st)) \<longrightarrow>
      fst (handleVerify env now userEmail st) = \<lparr>status = ''paid'', promoData = None\<rparr>) \<and>
   (paid_cache_coherent st \<and> JStr userEmail \<in> set (ledger_emails (PAYMENTS_SHEET st)) \<longrightarrow>
      fst (handleVerify env now userEmail st) = \<lparr>status = ''paid'', promoData = None\<rparr>)"
proof -
  have a: "JStr userEmail \<in> set (fst (getPaidUsersFromCacheOrSheet now st)) \<Longrightarrow>
      fst (handleVerify env now userEmail st) = \<lparr>status = ''paid'', promoData = None\<rparr>"
    by (cases "getPaidUsersFromCacheOrSheet now st") (simp add: handleVerify_def)
  show ?thesis using a getPaidUsers_coherent [of st now] by auto
qed

text \<open>
  C3. For an e-mail absent from the paid-user set (as read, or absent from the
  ledger when the cached list is coherent), \<open>handleVerify\<close> answers by the promotion
  that \<open>getActivePromotion\<close> reports: free_promo with the snapshot for type FREE,
  not_premium with the snapshot for type DISCOUNT, not_premium with null when there
  is none. The function is total: no case raises an error.
\<close>

theorem handleVerify_not_paid:
  assumes "JStr userEmail \<notin> set (fst (getPaidUsersFromCacheOrSheet now st)) \<or>
           (paid_cache_coherent st \<and> JStr userEmail \<notin> set (ledger_emails (PAYMENTS_SHEET st)))"
  shows "(case fst (getActivePromotion env now (snd (getPaidUsersFromCacheOrSheet now st))) of
            NoPromo \<Rightarrow>
              fst (handleVerify env now userEmail st) = \<lparr>status = ''not_premium'', promoData = None\<rparr>
          | HasPromo promoInfo \<Rightarrow>
              (type promoInfo = JStr ''FREE'' \<longrightarrow>
                 fst (handleVerify env now userEmail st) =
                   \<lparr>status = ''free_promo'', promoData = Some promoInfo\<rparr>) \<and>
              (type promoInfo = JStr ''DISCOUNT'' \<longrightarrow>
                 fst (handleVerify env now userEmail st) =
                   \<lparr>status = ''not_premium'', promoData = Some promoInfo\<rparr>))"
proof -
  have absent: "JStr userEmail \<notin> set (fst (getPaidUsersFromCacheOrSheet now st))"
    using assms getPaidUsers_coherent [of st now] by auto
  obtain paidUsers st1 where g: "getPaidUsersFromCacheOrSheet now st = (paidUsers, st1)"
    by (cases "getPaidUsersFromCacheOrSheet now st")
  obtain p st2 where h: "getActivePromotion env now st1 = (p, st2)"
    by (cases "getActivePromotion env now st1")
  show ?thesis
    using absent g h by (cases p) (simp_all add: handleVerify_def)
qed

section \<open>Properties of the client-side status cache\<close>

lemma fetchStatus_state:
  "snd (fetchStatus endpoint st) = st\<lparr>fetches := fetches st + 1\<rparr>"
  by (simp add: fetchStatus_def)

lemma fetchStatus_fails:
  "fetch_fails (endpoint (fetches st)) \<Longrightarrow> \<exists>err. fst (fetchStatus endpoint st) = Inl err"
  by (auto simp: fetchStatus_def fetch_fails_def split: fetch_result.splits option.splits)




lemma retryLoop_last_failure:
  assumes "attempt < maxRetries" and "fn st = (Inl err, st1)" and "maxRetries \<le> Suc attempt"
  shows "retryLoop fn maxRetries attempt st = (Inl err, st1)"
  using assms by (subst retryLoop.simps) simp

lemma retryLoop_retry:
  assumes "attempt < maxRetries" and "fn st = (Inl err, st1)" and "Suc attempt < maxRetries"
  shows "retryLoop fn maxRetries attempt st =
           retryLoop fn maxRetries (Suc attempt) (st1\<lparr>delays := delays st1 @ [2 ^ Suc attempt * 1000]\<rparr>)"
  using assms by (subst retryLoop.simps) simp

lemma fetchStatus_failure:
  assumes "fetch_fails (endpoint (fetches st))"
  shows "\<exists>err. fetchStatus endpoint st = (Inl err, st\<lparr>fetches := Suc (fetches st)\<rparr>)"
  using fetchStatus_fails [of endpoint st] assms fetchStatus_state [of endpoint st]
  by (cases "fetchStatus endpoint st") auto

lemma retryWithBackoff_exhausted:
  assumes f0: "fetch_fails (endpoint (fetches st))"
    and f1: "fetch_fails (endpoint (fetches st + 1))"
    and f2: "fetch_fails (endpoint (fetches st + 2))"
  shows "\<exists>err. retryWithBackoff (fetchStatus endpoint) 3 st =
           (Inl err, st\<lparr>fetches := fetches st + 3, delays := delays st @ [2000, 4000]\<rparr>)"
proof -
  define s1 where "s1 = st\<lparr>fetches := Suc (fetches st), delays := delays st @ [2000]\<rparr>"
  define s2 where "s2 = st\<lparr>fetches := Suc (Suc (fetches st)), delays := delays st @ [2000, 4000]\<rparr>"
  obtain e0 where c0: "fetchStatus endpoint st = (Inl e0, st\<lparr>fetches := Suc (fetches st)\<rparr>)"
    using fetchStatus_failure [of endpoint st] f0 by blast
  have "fetch_fails (endpoint (fetches s1))" using f1 by (simp add: s1_def)
  then obtain e1 where c1: "fetchStatus endpoint s1 = (Inl e1, s1\<lparr>fetches := Suc (fetches s1)\<rparr>)"
    using fetchStatus_failure [of endpoint s1] by blast
  have "fetch_fails (endpoint (fetches s2))" using f2 by (simp add: s2_def)
  then obtain e2 where c2: "fetchStatus endpoint s2 = (Inl e2, s2\<lparr>fetches := Suc (fetches s2)\<rparr>)"
    using fetchStatus_failure [of endpoint s2] by blast
  have "retryLoop (fetchStatus endpoint) 3 0 st =
          retryLoop (fetchStatus endpoint) 3 (Suc 0)
            ((st\<lparr>fetches := Suc (fetches st)\<rparr>)\<lparr>delays := delays (st\<lparr>fetches := Suc (fetches st)\<rparr>) @ [2 ^ Suc 0 * 1000]\<rparr>)"
    by (rule retryLoop_retry [where fn = "fetchStatus endpoint" and st = st, OF _ c0]) simp_all
  also have "\<dots> = retryLoop (fetchStatus endpoint) 3 (Suc 0) s1"
    by (simp add: s1_def)
  also have "\<dots> = retryLoop (fetchStatus endpoint) 3 (Suc (Suc 0))
            ((s1\<lparr>fetches := Suc (fetches s1)\<rparr>)\<lparr>delays := delays (s1\<lparr>fetches := Suc (fetches s1)\<rparr>) @ [2 ^ Suc (Suc 0) * 1000]\<rparr>)"
    by (rule retryLoop_retry [where fn = "fetchStatus endpoint" and st = s1, OF _ c1]) simp_all
  also have "\<dots> = retryLoop (fetchStatus endpoint) 3 (Suc (Suc 0)) s2"
    by (simp add: s1_def s2_def)
  also have "\<dots> = (Inl e2, s2\<lparr>fetches := Suc (fetches s2)\<rparr>)"
    by (rule retryLoop_last_failure [where fn = "fetchStatus endpoint" and st = s2, OF _ c2]) simp_all
  also have "s2\<lparr>fetches := Suc (fetches s2)\<rparr> =
      st\<lparr>fetches := fetches st + 3, delays := delays st @ [2000, 4000]\<rparr>"
    by (simp add: s2_def)
  finally show ?thesis by (auto simp: retryWithBackoff_def)
qed


lemma cache_honoured_code:
  "cache_honoured currentEmail now st \<longleftrightarrow>
     (\<not> (paymentState st = Some ''pending'') \<and>
      (case premiumCache st of
         None \<Rightarrow> False
       | Some pc \<Rightarrow>
           email pc = currentEmail \<and> cachedStatus pc = ''paid'' \<and>
           now - timestamp pc < PREMIUM_CACHE_DURATION))"
  by (simp add: cache_honoured_def PREMIUM_CACHE_DURATION_def split: option.splits)








text \<open>
  C9. When the stored entry is not honoured and the three requests that
  \<open>retryWithBackoff\<close> makes all fail, \<open>getPremiumStatus\<close> returns (and does not
  throw) the stored cache entry if there is one and
  \<^verbatim>\<open>{status: 'not_premium', promoData: null}\<close> otherwise, after exactly three
  requests and waits of 2000 and 4000 ms, with the storage unchanged.
\<close>

theorem remote_failure_falls_back:
  assumes rejected: "\<not> cache_honoured currentEmail now st"
    and f0: "fetch_fails (endpoint (fetches st))"
    and f1: "fetch_fails (endpoint (fetches st + 1))"
    and f2: "fetch_fails (endpoint (fetches st + 2))"
  shows "getPremiumStatus (Inr (token, currentEmail)) now endpoint st =
           (Inr (case premiumCache st of
                   Some pc \<Rightarrow> premiumCache_object pc
                 | None \<Rightarrow> status_object ''not_premium''),
            st\<lparr>fetches := fetches st + 3, delays := delays st @ [2000, 4000]\<rparr>)"
proof -
  obtain err where r: "retryWithBackoff (fetchStatus endpoint) 3 st =
      (Inl err, st\<lparr>fetches := fetches st + 3, delays := delays st @ [2000, 4000]\<rparr>)"
    using retryWithBackoff_exhausted [OF f0 f1 f2] by blast
  show ?thesis
    using rejected r unfolding cache_honoured_code
    by (auto simp: getPremiumStatus_def Let_def)
qed

lemma getPremiumStatus_never_throws:
  "\<exists>v. fst (getPremiumStatus (Inr (token, currentEmail)) now endpoint st) = Inr v"
proof -
  obtain r st1 where f: "retryWithBackoff (fetchStatus endpoint) 3 st = (r, st1)"
    by (cases "retryWithBackoff (fetchStatus endpoint) 3 st")
  show ?thesis
    using f by (cases r) (auto simp: getPremiumStatus_def Let_def split: sum.splits)
qed

section \<open>The properties on example data\<close>

theorem handleVerify_paid_witness:
  "JStr ''a@x.com'' \<in> set (ledger_emails (PAYMENTS_SHEET paid_promo_server)) \<and>
   paid_cache_coherent paid_promo_server \<and>
   fst (getActivePromotion utc_runtime ten_oclock paid_promo_server) \<noteq> NoPromo \<and>
   fst (handleVerify utc_runtime ten_oclock ''a@x.com'' paid_promo_server) =
     \<lparr>status = ''paid'', promoData = None\<rparr> \<and>
   JStr ''a@x.com'' \<in> set (fst (getPaidUsersFromCacheOrSheet 1000 warm_server)) \<and>
   fst (handleVerify utc_runtime 1000 ''a@x.com'' warm_server) =
     \<lparr>status = ''paid'', promoData = None\<rparr>"
proof -
  have m: "JStr ''a@x.com'' \<in> set (ledger_emails (PAYMENTS_SHEET paid_promo_server))"
    by code_simp
  have c: "paid_cache_coherent paid_promo_server"
    by code_simp
  have p: "fst (getActivePromotion utc_runtime ten_oclock paid_promo_server) \<noteq> NoPromo"
    by code_simp
  have r: "JStr ''a@x.com'' \<in> set (fst (getPaidUsersFromCacheOrSheet 1000 warm_server))"
    by code_simp
  note a = handleVerify_paid [of "''a@x.com''" ten_oclock paid_promo_server utc_runtime]
  note b = handleVerify_paid [of "''a@x.com''" 1000 warm_server utc_runtime]
  from a b show ?thesis using m c p r by blast
qed

theorem handleVerify_not_paid_witness:
  "JStr ''a@x.com'' \<notin> set (fst (getPaidUsersFromCacheOrSheet ten_oclock promo_server)) \<and>
   fst (handleVerify utc_runtime ten_oclock ''a@x.com'' promo_server) =
     \<lparr>status = ''not_premium'',
      promoData = Some \<lparr>type = JStr ''DISCOUNT'', promoCodeId = JStr ''P1'',
                         message = JStr ''Sale ends soon'', buttonText = JStr ''Buy now'',
                         salePriceText = JStr ''5 USD'', originalPrice = JStr ''10 USD'',
                         daysLeft = 6\<rparr>\<rparr> \<and>
   paid_cache_coherent paid_promo_server \<and>
   JStr ''b@x.com'' \<notin> set (ledger_emails (PAYMENTS_SHEET paid_promo_server)) \<and>
   fst (handleVerify utc_runtime ten_oclock ''b@x.com'' paid_promo_server) =
     \<lparr>status = ''free_promo'',
      promoData = Some \<lparr>type = JStr ''FREE'', promoCodeId = JStr [],
                         message = JStr ''Free this week'', buttonText = JStr [],
                         salePriceText = JStr [], originalPrice = JStr [], daysLeft = 4\<rparr>\<rparr> \<and>
   JStr ''a@x.com'' \<notin> set (fst (getPaidUsersFromCacheOrSheet ten_oclock fresh_server)) \<and>
   fst (handleVerify utc_runtime ten_oclock ''a@x.com'' fresh_server) =
     \<lparr>status = ''not_premium'', promoData = None\<rparr>"
proof -
  have a: "JStr ''a@x.com'' \<notin> set (fst (getPaidUsersFromCacheOrSheet ten_oclock promo_server))"
    by code_simp
  have p: "fst (getActivePromotion utc_runtime ten_oclock (snd (getPaidUsersFromCacheOrSheet ten_oclock promo_server))) =
     HasPromo \<lparr>type = JStr ''DISCOUNT'', promoCodeId = JStr ''P1'', message = JStr ''Sale ends soon'',
               buttonText = JStr ''Buy now'', salePriceText = JStr ''5 USD'',
               originalPrice = JStr ''10 USD'', daysLeft = 6\<rparr>"
    by code_simp
  have c: "paid_cache_coherent paid_promo_server" by code_simp
  have b: "JStr ''b@x.com'' \<notin> set (ledger_emails (PAYMENTS_SHEET paid_promo_server))"
    by code_simp
  have q: "fst (getActivePromotion utc_runtime ten_oclock (snd (getPaidUsersFromCacheOrSheet ten_oclock paid_promo_server))) =
     HasPromo \<lparr>type = JStr ''FREE'', promoCodeId = JStr [],
                         message = JStr ''Free this week'', buttonText = JStr [],
                         salePriceText = JStr [], originalPrice = JStr [], daysLeft = 4\<rparr>"
    by code_simp
  have e: "JStr ''a@x.com'' \<notin> set (fst (getPaidUsersFromCacheOrSheet ten_oclock fresh_server))"
    by code_simp
  have n: "fst (getActivePromotion utc_runtime ten_oclock (snd (getPaidUsersFromCacheOrSheet ten_oclock fresh_server))) =
     NoPromo"
    by code_simp
  note w1 = handleVerify_not_paid [of "''a@x.com''" ten_oclock promo_server utc_runtime]
  note w2 = handleVerify_not_paid [of "''b@x.com''" ten_oclock paid_promo_server utc_runtime]
  note w3 = handleVerify_not_paid [of "''a@x.com''" ten_oclock fresh_server utc_runtime]
  show ?thesis using w1 w2 w3 a p c b q e n by simp
qed

theorem promotion_daysLeft_witness:
  "days_in_order utc_runtime \<and>
   cache_get ten_oclock (active_promotion_data (SCRIPT_CACHE promo_server)) = None \<and>
   PROMOTIONS_SHEET promo_server = Some [promotions_header, discount_row] \<and>
   selected_window utc_runtime ten_oclock (drop 1 (getValues [promotions_header, discount_row])) =
     Some discount_row \<and>
   end_date utc_runtime discount_row = Some (20005 * 86400000) \<and>
   LocalTZA utc_runtime (local_day utc_runtime (20005 * 86400000) * day_ms + 86399999) False =
     LocalTZA utc_runtime (local_day utc_runtime ten_oclock * day_ms) False \<and>
   local_day utc_runtime (20005 * 86400000) = local_day utc_runtime ten_oclock + 5 \<and>
   (case fst (getActivePromotion utc_runtime ten_oclock promo_server) of
      NoPromo \<Rightarrow> False
    | HasPromo promoInfo \<Rightarrow> daysLeft promoInfo = 6) \<and>
   days_in_order new_york \<and>
   cache_get october_morning (active_promotion_data (SCRIPT_CACHE november_server)) = None \<and>
   selected_window new_york october_morning (drop 1 (getValues [promotions_header, november_row])) =
     Some november_row \<and>
   end_date new_york november_row = Some 1793768400000 \<and>
   (case fst (getActivePromotion new_york october_morning november_server) of
      NoPromo \<Rightarrow> False
    | HasPromo promoInfo \<Rightarrow>
        daysLeft promoInfo =
          \<lceil>real_of_int (setHours new_york 23 59 59 999 1793768400000 -
                        setHours new_york 0 0 0 0 october_morning) / real_of_int day_ms\<rceil>)"
proof -
  have miss: "cache_get ten_oclock (active_promotion_data (SCRIPT_CACHE promo_server)) = None"
    by code_simp
  have sheet: "PROMOTIONS_SHEET promo_server = Some [promotions_header, discount_row]"
    by (simp add: promo_server_def)
  have sel: "selected_window utc_runtime ten_oclock (drop 1 (getValues [promotions_header, discount_row])) =
     Some discount_row"
    by code_simp
  have date: "end_date utc_runtime discount_row = Some (20005 * 86400000)"
    by code_simp
  have same: "LocalTZA utc_runtime (local_day utc_runtime (20005 * 86400000) * day_ms + 86399999) False =
     LocalTZA utc_runtime (local_day utc_runtime ten_oclock * day_ms) False"
    by (simp add: utc_runtime_def)
  have five: "local_day utc_runtime (20005 * 86400000) = local_day utc_runtime ten_oclock + 5"
    by code_simp
  have miss': "cache_get october_morning (active_promotion_data (SCRIPT_CACHE november_server)) = None"
    by code_simp
  have sheet': "PROMOTIONS_SHEET november_server = Some [promotions_header, november_row]"
    by (simp add: november_server_def)
  have sel': "selected_window new_york october_morning (drop 1 (getValues [promotions_header, november_row])) =
     Some november_row"
    by code_simp
  have date': "end_date new_york november_row = Some 1793768400000"
    by code_simp
  note a = promotion_daysLeft [OF utc_runtime_days_in_order miss sheet sel date]
  note b = promotion_daysLeft [OF new_york_days_in_order miss' sheet' sel' date']
  have r1: "(case fst (getActivePromotion utc_runtime ten_oclock promo_server) of
      NoPromo \<Rightarrow> False
    | HasPromo promoInfo \<Rightarrow> daysLeft promoInfo = 6)"
    using a same five by (auto split: promo.splits)
  have r2: "(case fst (getActivePromotion new_york october_morning november_server) of
      NoPromo \<Rightarrow> False
    | HasPromo promoInfo \<Rightarrow>
        daysLeft promoInfo =
          \<lceil>real_of_int (setHours new_york 23 59 59 999 1793768400000 -
                        setHours new_york 0 0 0 0 october_morning) / real_of_int day_ms\<rceil>)"
    using b by (auto split: promo.splits)
  from utc_runtime_days_in_order new_york_days_in_order miss sheet sel date same five miss' sel' date' r1 r2
  show ?thesis by blast
qed

text \<open>
  The claim C4 as stated fails in two ways. On a cache hit: a snapshot computed at
  23:55 is still served at 00:02 the next day, when the window ends five days after
  today, and it reports the 7 days counted the day before. Across the end of daylight
  saving time: in New York on 2026-10-30 a window ending on 2026-11-04, five days
  after today, is evaluated from the table and reported with daysLeft 7, since the
  days in between add up to 6 days and one hour.
\<close>

theorem promotion_daysLeft_counterexample:
  "selected_window utc_runtime after_midnight (drop 1 (getValues [promotions_header, next_week_row])) =
     Some next_week_row \<and>
   end_date utc_runtime next_week_row = Some (20006 * 86400000) \<and>
   local_day utc_runtime (20006 * 86400000) = local_day utc_runtime after_midnight + 5 \<and>
   fst (getActivePromotion utc_runtime after_midnight
         (snd (getActivePromotion utc_runtime before_midnight late_server))) =
     HasPromo \<lparr>type = JStr ''DISCOUNT'', promoCodeId = JStr ''P1'', message = JStr ''Sale ends soon'',
               buttonText = JStr ''Buy now'', salePriceText = JStr ''5 USD'',
               originalPrice = JStr ''10 USD'', daysLeft = 7\<rparr> \<and>
   cache_get october_morning (active_promotion_data (SCRIPT_CACHE november_server)) = None \<and>
   selected_window new_york october_morning (drop 1 (getValues [promotions_header, november_row])) =
     Some november_row \<and>
   end_date new_york november_row = Some 1793768400000 \<and>
   local_day new_york 1793768400000 = local_day new_york october_morning + 5 \<and>
   setHours new_york 0 0 0 0 october_morning = 1793332800000 \<and>
   setHours new_york 23 59 59 999 1793768400000 = 1793854799999 \<and>
   fst (getActivePromotion new_york october_morning november_server) =
     HasPromo \<lparr>type = JStr ''DISCOUNT'', promoCodeId = JStr ''P1'', message = JStr ''Sale ends soon'',
               buttonText = JStr ''Buy now'', salePriceText = JStr ''5 USD'',
               originalPrice = JStr ''10 USD'', daysLeft = 7\<rparr>"
  by code_simp

theorem promotion_selection_first_active_witness:
  "days_in_order utc_runtime \<and>
   days_in_order new_york \<and>
   selected_window new_york october_morning [expired_row, november_row] = Some november_row \<and>
   scanRows new_york (setHours new_york 0 0 0 0 october_morning) [expired_row, november_row] =
     evalRow new_york (setHours new_york 0 0 0 0 october_morning) november_row \<and>
   \<not> window_active utc_runtime ten_oclock blank_row \<and>
   \<not> window_active utc_runtime ten_oclock text_row \<and>
   \<not> window_active utc_runtime ten_oclock expired_row \<and>
   window_active utc_runtime ten_oclock discount_row \<and>
   window_active utc_runtime ten_oclock free_row \<and>
   scanRows utc_runtime (setHours utc_runtime 0 0 0 0 ten_oclock)
     [blank_row, text_row, expired_row, discount_row, free_row] =
     evalRow utc_runtime (setHours utc_runtime 0 0 0 0 ten_oclock) discount_row \<and>
   evalRow utc_runtime (setHours utc_runtime 0 0 0 0 ten_oclock) discount_row \<noteq> None \<and>
   end_date utc_runtime text_row = None \<and>
   scanRows utc_runtime (setHours utc_runtime 0 0 0 0 ten_oclock)
     (text_row # [blank_row, text_row, expired_row, discount_row, free_row]) =
     evalRow utc_runtime (setHours utc_runtime 0 0 0 0 ten_oclock) discount_row \<and>
   cache_get ten_oclock (active_promotion_data (SCRIPT_CACHE paid_promo_server)) = None \<and>
   PROMOTIONS_SHEET paid_promo_server = Some [promotions_header, free_row] \<and>
   selected_window utc_runtime ten_oclock (drop 1 (getValues [promotions_header, free_row])) =
     Some free_row \<and>
   fst (getActivePromotion utc_runtime ten_oclock paid_promo_server) =
     HasPromo \<lparr>type = JStr ''FREE'', promoCodeId = JStr [], message = JStr ''Free this week'',
               buttonText = JStr [], salePriceText = JStr [], originalPrice = JStr [],
               daysLeft = 4\<rparr>"
proof -
  have n1: "\<not> window_active utc_runtime ten_oclock blank_row" by code_simp
  have n2: "\<not> window_active utc_runtime ten_oclock text_row" by code_simp
  have n3: "\<not> window_active utc_runtime ten_oclock expired_row" by code_simp
  have a1: "window_active utc_runtime ten_oclock discount_row" by code_simp
  have a2: "window_active utc_runtime ten_oclock free_row" by code_simp
  have rows: "[blank_row, text_row, expired_row, discount_row, free_row] =
                [blank_row, text_row, expired_row] @ discount_row # [] @ free_row # []"
    by simp
  have pre: "\<forall>r \<in> set [blank_row, text_row, expired_row]. \<not> window_active utc_runtime ten_oclock r"
    using n1 n2 n3 by simp
  have nodate: "end_date utc_runtime text_row = None" by code_simp
  have miss: "cache_get ten_oclock (active_promotion_data (SCRIPT_CACHE paid_promo_server)) = None"
    by code_simp
  have sheet: "PROMOTIONS_SHEET paid_promo_server = Some [promotions_header, free_row]"
    by (simp add: paid_promo_server_def)
  have sel: "selected_window utc_runtime ten_oclock (drop 1 (getValues [promotions_header, free_row])) =
     Some free_row"
    by code_simp
  have snap: "evalRow utc_runtime (setHours utc_runtime 0 0 0 0 ten_oclock) free_row =
     Some \<lparr>type = JStr ''FREE'', promoCodeId = JStr [], message = JStr ''Free this week'',
               buttonText = JStr [], salePriceText = JStr [], originalPrice = JStr [],
               daysLeft = 4\<rparr>"
    by code_simp
  note w = promotion_selection_first_active
    [OF utc_runtime_days_in_order, of ten_oclock "[blank_row, text_row, expired_row, discount_row, free_row]"]
  note first = w [THEN conjunct2, THEN conjunct2, THEN conjunct2, THEN conjunct1, rule_format,
      of "[blank_row, text_row, expired_row]" discount_row "[]" free_row "[]"]
  note skip = w [THEN conjunct2, THEN conjunct2, THEN conjunct1, rule_format, OF nodate]
  note resolver = w [THEN conjunct2, THEN conjunct2, THEN conjunct2, THEN conjunct2, rule_format,
      of paid_promo_server "[promotions_header, free_row]"]
  have r1: "scanRows utc_runtime (setHours utc_runtime 0 0 0 0 ten_oclock)
     [blank_row, text_row, expired_row, discount_row, free_row] =
     evalRow utc_runtime (setHours utc_runtime 0 0 0 0 ten_oclock) discount_row \<and>
   evalRow utc_runtime (setHours utc_runtime 0 0 0 0 ten_oclock) discount_row \<noteq> None"
    using first rows pre a1 a2 by blast
  have r2: "scanRows utc_runtime (setHours utc_runtime 0 0 0 0 ten_oclock)
     (text_row # [blank_row, text_row, expired_row, discount_row, free_row]) =
     evalRow utc_runtime (setHours utc_runtime 0 0 0 0 ten_oclock) discount_row"
    using skip r1 by (simp only:)
  have r3: "fst (getActivePromotion utc_runtime ten_oclock paid_promo_server) =
     HasPromo \<lparr>type = JStr ''FREE'', promoCodeId = JStr [], message = JStr ''Free this week'',
               buttonText = JStr [], salePriceText = JStr [], originalPrice = JStr [],
               daysLeft = 4\<rparr>"
    using resolver miss sheet sel snap by simp
  have selny: "selected_window new_york october_morning [expired_row, november_row] = Some november_row"
    by code_simp
  note ny = promotion_selection_first_active
    [OF new_york_days_in_order, of october_morning "[expired_row, november_row]", THEN conjunct1]
  have r4: "scanRows new_york (setHours new_york 0 0 0 0 october_morning) [expired_row, november_row] =
     evalRow new_york (setHours new_york 0 0 0 0 october_morning) november_row"
    using ny selny by (simp only: option.case)
  from utc_runtime_days_in_order new_york_days_in_order selny r4 n1 n2 n3 a1 a2 r1 r2 r3 nodate miss sheet sel
  show ?thesis by blast
qed

theorem getActivePromotion_failure_safe_witness:
  "fst (getActivePromotion_try utc_runtime ten_oclock no_promotions_server) = Inl TypeError \<and>
   fst (getActivePromotion utc_runtime ten_oclock no_promotions_server) = NoPromo \<and>
   active_promotion_data (SCRIPT_CACHE (snd (getActivePromotion utc_runtime ten_oclock no_promotions_server))) =
     None"
proof -
  have f: "fst (getActivePromotion_try utc_runtime ten_oclock no_promotions_server) = Inl TypeError"
    by code_simp
  from getActivePromotion_failure_safe [OF f]
  show ?thesis using f by (simp add: no_promotions_server_def)
qed



theorem remote_failure_falls_back_witness:
  "\<not> cache_honoured ''a@x.com'' ten_oclock stale_client \<and>
   fetch_fails (offline 0) \<and> fetch_fails (offline 1) \<and> fetch_fails (offline 2) \<and>
   getPremiumStatus (Inr (''tok'', ''a@x.com'')) ten_oclock offline stale_client =
     (Inr (JObj [(''status'', JStr ''paid''), (''timestamp'', JNum (ten_oclock - 86400000)),
                 (''email'', JStr ''a@x.com'')]),
      stale_client\<lparr>fetches := 3, delays := [2000, 4000]\<rparr>) \<and>
   \<not> cache_honoured ''a@x.com'' ten_oclock new_client \<and>
   getPremiumStatus (Inr (''tok'', ''a@x.com'')) ten_oclock offline new_client =
     (Inr (JObj [(''status'', JStr ''not_premium''), (''promoData'', JNull)]),
      new_client\<lparr>fetches := 3, delays := [2000, 4000]\<rparr>)"
proof -
  have n1: "\<not> cache_honoured ''a@x.com'' ten_oclock stale_client" by code_simp
  have n2: "\<not> cache_honoured ''a@x.com'' ten_oclock new_client" by code_simp
  have f: "\<And>k. fetch_fails (offline k)" by (simp add: fetch_fails_def offline_def)
  have s: "fetches stale_client = 0" "delays stale_client = []"
    "premiumCache stale_client = Some \<lparr>cachedStatus = ''paid'', timestamp = ten_oclock - 86400000,
                            email = ''a@x.com''\<rparr>"
    by (simp_all add: stale_client_def)
  have c: "fetches new_client = 0" "delays new_client = []" "premiumCache new_client = None"
    by (simp_all add: new_client_def)
  note a = remote_failure_falls_back [OF n1 f f f, of "''tok''"]
  note b = remote_failure_falls_back [OF n2 f f f, of "''tok''"]
  show ?thesis
    using a b n1 n2 f s c by (simp add: premiumCache_object_def status_object_def)
qed

end
